theory Spec2Isabelle
  imports Complex_Main
begin

section \<open>The particle field of \<open>ParticleField\<close>\<close>

text \<open>
  A particle is the object literal built when \<open>ParticleField\<close> initialises its array:
  \<^verbatim>\<open>{ x, y, vx, vy, r, o }\<close>. The fields carry the prefix \<open>p_\<close>, since the bare
  names \<open>x\<close> and \<open>o\<close> are not usable as constants. The source computes on IEEE
  doubles; the model computes on the reals, so rounding, infinities and NaN are outside
  the model.
\<close>

record particle =
  p_x :: real
  p_y :: real
  p_vx :: real
  p_vy :: real
  p_r :: real
  p_o :: real

text \<open>
  The body of the \<open>forEach\<close> callback of \<open>loop\<close>, cut at its statements and kept in
  their order; the drawing calls write nothing to the particle and are left out.
  \<open>mx\<close> and \<open>my\<close> are the constants of that name in \<open>loop\<close>.
  \<^verbatim>\<open>
  const dx = p.x - mx;
  const dy = p.y - my;
  const dist = Math.sqrt(dx * dx + dy * dy) + 0.001;
  const force = Math.min(30 / dist, 0.6);
  p.vx += (dx / dist) * force * 0.02;
  p.vy += (dy / dist) * force * 0.02;
  \<close>
\<close>

definition repel :: "real \<Rightarrow> real \<Rightarrow> particle \<Rightarrow> particle" where
  "repel mx my p =
     (let dx = p_x p - mx;
          dy = p_y p - my;
          dist = sqrt (dx * dx + dy * dy) + 0.001;
          force = min (30 / dist) 0.6;
          p1 = p\<lparr>p_vx := p_vx p + (dx / dist) * force * 0.02\<rparr>
      in p1\<lparr>p_vy := p_vy p1 + (dy / dist) * force * 0.02\<rparr>)"

text \<open>\<^verbatim>\<open>p.x += p.vx; p.y += p.vy;\<close>\<close>

definition move :: "particle \<Rightarrow> particle" where
  "move p = (let p1 = p\<lparr>p_x := p_x p + p_vx p\<rparr> in p1\<lparr>p_y := p_y p1 + p_vy p1\<rparr>)"

text \<open>\<^verbatim>\<open>p.vx *= 0.98; p.vy *= 0.98;\<close>\<close>

definition damp :: "particle \<Rightarrow> particle" where
  "damp p = (let p1 = p\<lparr>p_vx := p_vx p * 0.98\<rparr> in p1\<lparr>p_vy := p_vy p1 * 0.98\<rparr>)"

text \<open>
  \<^verbatim>\<open>
  if (p.x < 0 || p.x > canvas.width) p.vx *= -1;
  if (p.y < 0 || p.y > canvas.height) p.vy *= -1;
  \<close>
  \<open>cw\<close> and \<open>ch\<close> are \<open>canvas.width\<close> and \<open>canvas.height\<close>.
\<close>

definition bounce :: "real \<Rightarrow> real \<Rightarrow> particle \<Rightarrow> particle" where
  "bounce cw ch p =
     (let p1 = (if p_x p < 0 \<or> p_x p > cw then p\<lparr>p_vx := p_vx p * (- 1)\<rparr> else p)
      in (if p_y p1 < 0 \<or> p_y p1 > ch then p1\<lparr>p_vy := p_vy p1 * (- 1)\<rparr> else p1))"

text \<open>The whole callback: what one call of \<open>loop\<close> does to one particle.\<close>

definition update_particle :: "real \<Rightarrow> real \<Rightarrow> real \<Rightarrow> real \<Rightarrow> particle \<Rightarrow> particle" where
  "update_particle cw ch mx my p = bounce cw ch (damp (move (repel mx my p)))"

text \<open>\<open>n\<close> calls of \<open>loop\<close> on one particle, the pointer and the canvas size unchanged.\<close>

fun frames :: "nat \<Rightarrow> real \<Rightarrow> real \<Rightarrow> real \<Rightarrow> real \<Rightarrow> particle \<Rightarrow> particle" where
  "frames 0 cw ch mx my p = p"
| "frames (Suc n) cw ch mx my p = frames n cw ch mx my (update_particle cw ch mx my p)"

text \<open>The magnitude of the velocity.\<close>

definition speed :: "particle \<Rightarrow> real" where
  "speed p = sqrt ((p_vx p)\<^sup>2 + (p_vy p)\<^sup>2)"

text \<open>The magnitude of what \<open>repel\<close> adds to the velocity: the pointer's push.\<close>

definition push_size :: "real \<Rightarrow> real \<Rightarrow> particle \<Rightarrow> real" where
  "push_size mx my p =
     sqrt ((p_vx (repel mx my p) - p_vx p)\<^sup>2 + (p_vy (repel mx my p) - p_vy p)\<^sup>2)"

subsection \<open>The update as the specification words it\<close>

text \<open>
  The six steps of the specification's per-frame update, written as the values they
  name: the displacement and the distance with its \<open>\<epsilon>\<close> (step 1), the capped force
  (step 2), the velocity after the push (step 3), the integrated position (step 4), the
  damped velocity (step 5) and the reflected velocity (step 6). These definitions follow
  the specification's text; \<open>update_particle\<close> above follows the source.
\<close>

definition spec_epsilon :: real where
  "spec_epsilon = 0.001"

definition spec_dist :: "real \<Rightarrow> real \<Rightarrow> particle \<Rightarrow> real" where
  "spec_dist mx my p = sqrt ((p_x p - mx)\<^sup>2 + (p_y p - my)\<^sup>2) + spec_epsilon"

definition spec_force :: "real \<Rightarrow> real \<Rightarrow> particle \<Rightarrow> real" where
  "spec_force mx my p = min (30 / spec_dist mx my p) 0.6"

definition spec_pushed_vx :: "real \<Rightarrow> real \<Rightarrow> particle \<Rightarrow> real" where
  "spec_pushed_vx mx my p =
     p_vx p + ((p_x p - mx) / spec_dist mx my p) * spec_force mx my p * 0.02"

definition spec_pushed_vy :: "real \<Rightarrow> real \<Rightarrow> particle \<Rightarrow> real" where
  "spec_pushed_vy mx my p =
     p_vy p + ((p_y p - my) / spec_dist mx my p) * spec_force mx my p * 0.02"

definition spec_outside :: "real \<Rightarrow> real \<Rightarrow> bool" where
  "spec_outside bound v = (v < 0 \<or> bound < v)"

definition spec_update :: "real \<Rightarrow> real \<Rightarrow> real \<Rightarrow> real \<Rightarrow> particle \<Rightarrow> particle" where
  "spec_update cw ch mx my p =
     (let nx = p_x p + spec_pushed_vx mx my p;
          ny = p_y p + spec_pushed_vy mx my p;
          damped_vx = spec_pushed_vx mx my p * 0.98;
          damped_vy = spec_pushed_vy mx my p * 0.98
      in \<lparr>p_x = nx, p_y = ny,
          p_vx = (if spec_outside cw nx then - damped_vx else damped_vx),
          p_vy = (if spec_outside ch ny then - damped_vy else damped_vy),
          p_r = p_r p, p_o = p_o p\<rparr>)"

section \<open>The browser objects the components use\<close>

text \<open>
  The canvas element: its layout size in CSS pixels (\<open>clientWidth\<close>, \<open>clientHeight\<close>,
  integers in the DOM) and the size of its drawing buffer (\<open>width\<close>, \<open>height\<close>),
  which the DOM declares as \<open>unsigned long\<close>.
\<close>

record canvas =
  clientWidth :: int
  clientHeight :: int
  width :: int
  height :: int

text \<open>
  Assigning a number to \<open>canvas.width\<close> or \<open>canvas.height\<close>: the number is converted
  to \<open>unsigned long\<close> (its fraction is cut off toward zero, and the result taken
  modulo \<open>2 ^ 32\<close>), and a result above 2147483647 is replaced by the attribute's
  default, 300 for the width and 150 for the height. The source only writes the
  assignment; the conversion is the browser's.
\<close>

definition unsigned_long :: "real \<Rightarrow> int" where
  "unsigned_long v = (if 0 \<le> v then \<lfloor>v\<rfloor> else \<lceil>v\<rceil>) mod 4294967296"

definition set_dimension :: "int \<Rightarrow> real \<Rightarrow> int" where
  "set_dimension dflt v = (let n = unsigned_long v in if n \<le> 2147483647 then n else dflt)"

text \<open>
  A callback is one of the four closures the two canvas components hand to the browser;
  the number tells which run of the effect created it, since every run creates new
  closures.
\<close>

datatype callback = ParticleResize nat | ParticleLoop nat | WavesResize nat | WavesDraw nat

text \<open>
  The part of \<open>window\<close> the components touch: the device pixel ratio, the listeners of
  the \<open>resize\<close> event, the pending animation-frame requests with their handles, the
  next handle, and how many times \<open>Math.random\<close> has been called.
\<close>

record window =
  devicePixelRatio :: real
  resize_listeners :: "callback list"
  frame_requests :: "(nat \<times> callback) list"
  next_handle :: nat
  random_calls :: nat

text \<open>\<open>window.addEventListener("resize", cb)\<close>: a listener already present is not added again.\<close>

definition addEventListener :: "callback \<Rightarrow> window \<Rightarrow> window" where
  "addEventListener cb w =
     (if cb \<in> set (resize_listeners w) then w
      else w\<lparr>resize_listeners := resize_listeners w @ [cb]\<rparr>)"

text \<open>\<open>window.removeEventListener("resize", cb)\<close>.\<close>

definition removeEventListener :: "callback \<Rightarrow> window \<Rightarrow> window" where
  "removeEventListener cb w = w\<lparr>resize_listeners := removeAll cb (resize_listeners w)\<rparr>"

text \<open>\<open>requestAnimationFrame(cb)\<close> returns a new handle and queues the callback.\<close>

definition requestAnimationFrame :: "callback \<Rightarrow> window \<Rightarrow> nat \<times> window" where
  "requestAnimationFrame cb w =
     (next_handle w,
      w\<lparr>frame_requests := frame_requests w @ [(next_handle w, cb)],
        next_handle := next_handle w + 1\<rparr>)"

text \<open>
  \<open>cancelAnimationFrame(raf)\<close>; \<open>None\<close> is the \<open>undefined\<close> of a \<open>let raf\<close> that was
  never assigned, which cancels nothing.
\<close>

definition cancelAnimationFrame :: "nat option \<Rightarrow> window \<Rightarrow> window" where
  "cancelAnimationFrame h w =
     (case h of None \<Rightarrow> w
      | Some i \<Rightarrow> w\<lparr>frame_requests := filter (\<lambda>r. fst r \<noteq> i) (frame_requests w)\<rparr>)"

text \<open>
  \<^verbatim>\<open>const dpr = Math.min(window.devicePixelRatio, 2)\<close> (in a browser \<open>window\<close> is
  defined). The component body computes it at every render; the closures of an effect
  keep the value of the render that created them.
\<close>

definition dpr :: "window \<Rightarrow> real" where
  "dpr w = min (devicePixelRatio w) 2"

section \<open>Initialisation and effects of the canvas components\<close>

text \<open>
  \<open>resize\<close> of \<open>ParticleField\<close>, with \<open>r\<close> the \<open>dpr\<close> its closure holds:
  \<^verbatim>\<open>canvas.width = canvas.clientWidth * dpr; canvas.height = canvas.clientHeight * dpr;\<close>
\<close>

definition resize :: "real \<Rightarrow> canvas \<Rightarrow> canvas" where
  "resize r c =
     (let c1 = c\<lparr>width := set_dimension 300 (real_of_int (clientWidth c) * r)\<rparr>
      in c1\<lparr>height := set_dimension 150 (real_of_int (clientHeight c1) * r)\<rparr>)"

text \<open>\<^verbatim>\<open>const count = Math.floor((canvas.clientWidth * canvas.clientHeight) / 18000);\<close>\<close>

definition count :: "canvas \<Rightarrow> int" where
  "count c = \<lfloor>real_of_int (clientWidth c * clientHeight c) / 18000\<rfloor>"

text \<open>
  The object literal of the initialisation. \<open>rnd i\<close> is the result of the \<open>i\<close>-th call of
  \<open>Math.random\<close> on the page; the six calls of one particle are consecutive, in the order
  of the literal's properties.
  \<^verbatim>\<open>
  x: Math.random() * canvas.width,
  y: Math.random() * canvas.height,
  vx: (Math.random() - 0.5) * 0.4,
  vy: (Math.random() - 0.5) * 0.4,
  r: Math.random() * 2 + 0.5,
  o: Math.random() * 0.6 + 0.2,
  \<close>
\<close>

definition new_particle :: "(nat \<Rightarrow> real) \<Rightarrow> nat \<Rightarrow> canvas \<Rightarrow> particle" where
  "new_particle rnd k c =
     \<lparr>p_x = rnd k * real_of_int (width c),
      p_y = rnd (k + 1) * real_of_int (height c),
      p_vx = (rnd (k + 2) - 0.5) * 0.4,
      p_vy = (rnd (k + 3) - 0.5) * 0.4,
      p_r = rnd (k + 4) * 2 + 0.5,
      p_o = rnd (k + 5) * 0.6 + 0.2\<rparr>"

text \<open>\<^verbatim>\<open>new Array(Math.max(60, count)).fill(0).map(() => ({ ... }))\<close>\<close>

definition init_particles :: "(nat \<Rightarrow> real) \<Rightarrow> nat \<Rightarrow> canvas \<Rightarrow> particle list" where
  "init_particles rnd k c =
     map (\<lambda>i. new_particle rnd (k + 6 * i) c) [0..<nat (max 60 (count c))]"

text \<open>
  One mounted \<open>ParticleField\<close>: the canvas of \<open>canvasRef\<close> (\<open>None\<close> for a \<open>null\<close> ref),
  \<open>particles.current\<close>, the position of \<open>useCursor\<close>, the \<open>raf\<close> variable and the number
  of the closures of the last effect run, the dependency values of that run
  (\<open>[dpr, mouse.x, mouse.y]\<close>, which are also the \<open>dpr\<close> and the \<open>mouse\<close> its closures
  hold), and whether that run returned a cleanup function.
\<close>

record particle_field =
  pf_canvas :: "canvas option"
  particles :: "particle list"
  mouse :: "real \<times> real"
  raf :: "nat option"
  closure :: nat
  deps :: "(real \<times> real \<times> real) option"
  has_cleanup :: bool

text \<open>
  \<open>loop\<close>, with \<open>r\<close> and \<open>m\<close> the \<open>dpr\<close> and the \<open>mouse\<close> its closure holds and \<open>c\<close>
  the canvas: it requests the next frame first, then updates (and draws) every particle
  with \<open>mx = mouse.x * dpr\<close> and \<open>my = mouse.y * dpr\<close>.
\<close>

definition loop ::
  "real \<Rightarrow> real \<times> real \<Rightarrow> window \<Rightarrow> canvas \<Rightarrow> particle_field \<Rightarrow> window \<times> particle_field" where
  "loop r m w c s =
     (let (h, w1) = requestAnimationFrame (ParticleLoop (closure s)) w;
          mx = fst m * r;
          my = snd m * r
      in (w1, s\<lparr>raf := Some h,
                particles := map (update_particle (real_of_int (width c)) (real_of_int (height c))
                                    mx my) (particles s)\<rparr>))"

text \<open>
  A display frame: the browser takes the request it fires off its list and calls the
  \<open>loop\<close> of the last effect run.
\<close>

definition display_frame :: "window \<Rightarrow> particle_field \<Rightarrow> window \<times> particle_field" where
  "display_frame w s =
     (case (pf_canvas s, deps s) of
        (Some c, Some (r, x, y)) \<Rightarrow> loop r (x, y) (cancelAnimationFrame (raf s) w) c s
      | _ \<Rightarrow> (w, s))"

fun display_frames :: "nat \<Rightarrow> window \<Rightarrow> particle_field \<Rightarrow> window \<times> particle_field" where
  "display_frames 0 w s = (w, s)"
| "display_frames (Suc n) w s =
     display_frames n (fst (display_frame w s)) (snd (display_frame w s))"

text \<open>
  The body of the \<open>useEffect\<close> of \<open>ParticleField\<close>, run by a render that computed the
  ratio \<open>r\<close>: return at once without a canvas; otherwise size the buffer, register
  \<open>resize\<close>, create the particles, and call \<open>loop\<close> once.
\<close>

definition pf_effect ::
  "(nat \<Rightarrow> real) \<Rightarrow> real \<Rightarrow> window \<Rightarrow> particle_field \<Rightarrow> window \<times> particle_field" where
  "pf_effect rnd r w s0 =
     (let s = s0\<lparr>deps := Some (r, fst (mouse s0), snd (mouse s0)), closure := closure s0 + 1,
                 raf := None\<rparr>
      in case pf_canvas s of
           None \<Rightarrow> (w, s\<lparr>has_cleanup := False\<rparr>)
         | Some c0 \<Rightarrow>
             (let c = resize r c0;
                  w1 = addEventListener (ParticleResize (closure s)) w;
                  ps = init_particles rnd (random_calls w1) c;
                  w2 = w1\<lparr>random_calls := random_calls w1 + 6 * length ps\<rparr>;
                  s1 = s\<lparr>pf_canvas := Some c, particles := ps, has_cleanup := True\<rparr>
              in loop r (mouse s) w2 c s1))"

text \<open>
  The function the effect returns:
  \<^verbatim>\<open>cancelAnimationFrame(raf); window.removeEventListener("resize", resize);\<close>
\<close>

definition pf_cleanup :: "window \<Rightarrow> particle_field \<Rightarrow> window" where
  "pf_cleanup w s =
     (if has_cleanup s
      then removeEventListener (ParticleResize (closure s)) (cancelAnimationFrame (raf s) w)
      else w)"



text \<open>Mounting and then unmounting: the effect of the first render, then its cleanup.\<close>

definition pf_mount_unmount :: "(nat \<Rightarrow> real) \<Rightarrow> window \<Rightarrow> particle_field \<Rightarrow> window" where
  "pf_mount_unmount rnd w s = (let (w1, s1) = pf_effect rnd (dpr w) w s in pf_cleanup w1 s1)"

text \<open>
  One mounted \<open>SoundWaves\<close>: its canvas, the \<open>height\<close> prop, the pointer, the time \<open>t\<close>,
  and the \<open>raf\<close> variable, closure number and cleanup flag as above.
\<close>

record sound_waves =
  sw_canvas :: "canvas option"
  sw_height :: real
  sw_mouse :: "real \<times> real"
  t :: real
  sw_raf :: "nat option"
  sw_closure :: nat
  sw_has_cleanup :: bool

text \<open>
  \<open>resize\<close> of \<open>SoundWaves\<close>:
  \<^verbatim>\<open>canvas.width = canvas.clientWidth * dpr; canvas.height = height * dpr;\<close>
\<close>

definition sw_resize :: "real \<Rightarrow> real \<Rightarrow> canvas \<Rightarrow> canvas" where
  "sw_resize r h c =
     (let c1 = c\<lparr>width := set_dimension 300 (real_of_int (clientWidth c) * r)\<rparr>
      in c1\<lparr>height := set_dimension 150 (h * r)\<rparr>)"

text \<open>\<open>draw\<close>: request the next frame, advance \<open>t\<close> by \<open>0.005\<close>, paint (not modelled).\<close>

definition draw :: "window \<Rightarrow> sound_waves \<Rightarrow> window \<times> sound_waves" where
  "draw w s =
     (let (h, w1) = requestAnimationFrame (WavesDraw (sw_closure s)) w
      in (w1, s\<lparr>sw_raf := Some h, t := t s + 0.005\<rparr>))"

text \<open>The body of the \<open>useEffect\<close> of \<open>SoundWaves\<close>, run by a render that computed the ratio \<open>r\<close>.\<close>

definition sw_effect :: "real \<Rightarrow> window \<Rightarrow> sound_waves \<Rightarrow> window \<times> sound_waves" where
  "sw_effect r w s0 =
     (let s = s0\<lparr>sw_closure := sw_closure s0 + 1, sw_raf := None\<rparr>
      in case sw_canvas s of
           None \<Rightarrow> (w, s\<lparr>sw_has_cleanup := False\<rparr>)
         | Some c0 \<Rightarrow>
             (let c = sw_resize r (sw_height s) c0;
                  w1 = addEventListener (WavesResize (sw_closure s)) w;
                  s1 = s\<lparr>sw_canvas := Some c, t := 0, sw_has_cleanup := True\<rparr>
              in draw w1 s1))"

text \<open>The function that effect returns: \<^verbatim>\<open>() => cancelAnimationFrame(raf)\<close>, and nothing else.\<close>

definition sw_cleanup :: "window \<Rightarrow> sound_waves \<Rightarrow> window" where
  "sw_cleanup w s = (if sw_has_cleanup s then cancelAnimationFrame (sw_raf s) w else w)"

definition sw_mount_unmount :: "window \<Rightarrow> sound_waves \<Rightarrow> window" where
  "sw_mount_unmount w s = (let (w1, s1) = sw_effect (dpr w) w s in sw_cleanup w1 s1)"

section \<open>The lead form\<close>

text \<open>The object of \<open>useState\<close> in \<open>LeadForm\<close>, and its initial (and cleared) value.\<close>

record form_state =
  name :: string
  email :: string
  phone :: string
  company :: string
  message :: string

definition empty_form :: form_state where
  "empty_form = \<lparr>name = [], email = [], phone = [], company = [], message = []\<rparr>"

text \<open>The three state variables of the component; \<open>ok = None\<close> is \<open>null\<close>.\<close>

record lead_form =
  state :: form_state
  loading :: bool
  ok :: "bool option"

text \<open>
  What \<open>await fetch(...)\<close> gives: a response with its status code, or a rejection (the
  network failure). \<open>res.ok\<close> of a response is true for the status codes 200 to 299.
\<close>

datatype fetch_result = Response int | NetworkError

definition response_ok :: "int \<Rightarrow> bool" where
  "response_ok status \<longleftrightarrow> 200 \<le> status \<and> status \<le> 299"

text \<open>
  The request \<open>onSubmit\<close> sends; \<open>ts\<close> is \<open>new Date().toISOString()\<close>, and the body
  lists the properties of the serialised object in their order.
\<close>

record request =
  url :: string
  http_method :: string
  headers :: "(string \<times> string) list"
  body :: "(string \<times> string) list"

definition lead_request :: "string \<Rightarrow> string \<Rightarrow> form_state \<Rightarrow> request" where
  "lead_request webhook ts s =
     \<lparr>url = webhook, http_method = ''POST'',
      headers = [(''Content-Type'', ''application/json'')],
      body = [(''source'', ''website''), (''ts'', ts), (''name'', name s), (''email'', email s),
              (''phone'', phone s), (''company'', company s), (''message'', message s)]\<rparr>"

text \<open>
  The \<open>try\<close> block after the request was made: a rejection throws (\<open>Inl\<close>) before the
  two setters are reached; a response sets \<open>ok\<close> to \<open>res.ok\<close> and clears the fields.
\<close>

definition try_block :: "fetch_result \<Rightarrow> lead_form \<Rightarrow> unit + lead_form" where
  "try_block res f =
     (case res of
        NetworkError \<Rightarrow> Inl ()
      | Response status \<Rightarrow>
          (let f1 = f\<lparr>ok := Some (response_ok status)\<rparr>
           in Inr (f1\<lparr>state := empty_form\<rparr>)))"

text \<open>
  \<open>onSubmit\<close>: \<open>setLoading(true)\<close>, \<open>setOk(null)\<close>, the \<open>try\<close> block, the \<open>catch\<close>
  block (\<open>setOk(false)\<close>), the \<open>finally\<close> block (\<open>setLoading(false)\<close>). The network is
  the function \<open>fetch\<close>; the second component of the result lists the requests sent.
\<close>

definition onSubmit ::
  "string \<Rightarrow> string \<Rightarrow> (request \<Rightarrow> fetch_result) \<Rightarrow> lead_form \<Rightarrow> lead_form \<times> request list" where
  "onSubmit webhook ts fetch f0 =
     (let f1 = f0\<lparr>loading := True\<rparr>;
          f2 = f1\<lparr>ok := None\<rparr>;
          req = lead_request webhook ts (state f0);
          f3 = (case try_block (fetch req) f2 of
                  Inr f \<Rightarrow> f
                | Inl err \<Rightarrow> f2\<lparr>ok := Some False\<rparr>);
          f4 = f3\<lparr>loading := False\<rparr>
      in (f4, [req]))"

text \<open>
  The two conditional spans of the form: the thanks message for \<open>ok === true\<close>, and for
  \<open>ok === false\<close> the failure message, which names the contact address.
\<close>

datatype banner = Thanks | SomethingWentWrong string

definition banners :: "lead_form \<Rightarrow> banner list" where
  "banners f =
     (if ok f = Some True then [Thanks] else []) @
     (if ok f = Some False then [SomethingWentWrong ''hello@oceanside.ai''] else [])"

section \<open>The persisted theme\<close>

text \<open>
  \<open>localStorage\<close> as a map from keys to strings; the page state is the \<open>theme\<close> of
  \<open>useTheme\<close>, the storage, and whether the root element carries the class \<open>dark\<close>.
\<close>

type_synonym storage = "string \<rightharpoonup> string"

record page =
  theme :: string
  localStorage :: storage
  dark_class :: bool

text \<open>
  The initial value of \<open>useState\<close>: the stored item when it is truthy (present and not
  the empty string), \<open>"dark"\<close> otherwise.
\<close>

definition initial_theme :: "storage \<Rightarrow> string" where
  "initial_theme s =
     (case s ''theme'' of
        None \<Rightarrow> ''dark''
      | Some v \<Rightarrow> if v = [] then ''dark'' else v)"

text \<open>
  The effect of \<open>useTheme\<close>:
  \<^verbatim>\<open>
  if (!theme) return;
  document.documentElement.classList.toggle("dark", theme === "dark");
  window.localStorage.setItem("theme", theme);
  \<close>
\<close>

definition theme_effect :: "page \<Rightarrow> page" where
  "theme_effect p =
     (if theme p = [] then p
      else (let p1 = p\<lparr>dark_class := (theme p = ''dark'')\<rparr>
            in p1\<lparr>localStorage := (localStorage p1)(''theme'' \<mapsto> theme p1)\<rparr>))"

text \<open>Startup: the initial state, then the effect of the first render.\<close>

definition useTheme :: "storage \<Rightarrow> bool \<Rightarrow> page" where
  "useTheme s cls = theme_effect \<lparr>theme = initial_theme s, localStorage = s, dark_class = cls\<rparr>"

text \<open>
  \<open>setTheme\<close>: React renders again, and runs the effect (dependency \<open>[theme]\<close>), only
  when the value changes.
\<close>

definition setTheme :: "string \<Rightarrow> page \<Rightarrow> page" where
  "setTheme v p = (if v = theme p then p else theme_effect (p\<lparr>theme := v\<rparr>))"

text \<open>The click handler of \<open>ThemeToggle\<close>.\<close>

definition toggle :: "page \<Rightarrow> page" where
  "toggle p = setTheme (if theme p = ''dark'' then ''light'' else ''dark'') p"

text \<open>A reload keeps the storage and starts the page again.\<close>

definition reload :: "bool \<Rightarrow> page \<Rightarrow> page" where
  "reload cls p = useTheme (localStorage p) cls"

datatype user_action = Toggle | Reload bool

fun act :: "user_action \<Rightarrow> page \<Rightarrow> page" where
  "act Toggle p = toggle p"
| "act (Reload cls) p = reload cls p"

text \<open>A visit: startup on some storage, then any toggles and reloads.\<close>

definition visit :: "storage \<Rightarrow> bool \<Rightarrow> user_action list \<Rightarrow> page" where
  "visit s cls acts = foldl (\<lambda>p a. act a p) (useTheme s cls) acts"

text \<open>The storage holds the current theme.\<close>

definition stored :: "page \<Rightarrow> bool" where
  "stored p \<longleftrightarrow> theme p \<noteq> [] \<and> localStorage p ''theme'' = Some (theme p)"

section \<open>Concrete inputs\<close>

text \<open>
  A particle just inside the left edge of a 100 by 100 canvas, level with a pointer held
  at \<open>(10, 50)\<close> and moving slowly inward.
\<close>

definition edge_particle :: particle where
  "edge_particle = \<lparr>p_x = 0.001, p_y = 50, p_vx = 0.006, p_vy = 0, p_r = 1, p_o = 0.5\<rparr>"

text \<open>
  The states that particle runs through once it has crossed the edge: left of the canvas,
  level with the pointer, with a small inward velocity after each flip.
\<close>

definition drifting :: "particle \<Rightarrow> bool" where
  "drifting p \<longleftrightarrow>
     p_y p = 50 \<and> p_vy p = 0 \<and> p_x p < 0 \<and> 0.005535 \<le> p_vx p \<and> p_vx p \<le> 0.00634"

text \<open>A particle on the left edge with a very small outward velocity.\<close>

definition slow_edge_particle :: particle where
  "slow_edge_particle = \<lparr>p_x = 0, p_y = 50, p_vx = - 0.0001, p_vy = 0, p_r = 1, p_o = 0.5\<rparr>"

text \<open>Particles in two opposite corners of a 100 by 100 canvas, moving outward.\<close>

definition corner_low :: particle where
  "corner_low = \<lparr>p_x = 0, p_y = 0, p_vx = - 0.1, p_vy = - 0.1, p_r = 1, p_o = 0.5\<rparr>"

definition corner_high :: particle where
  "corner_high = \<lparr>p_x = 100, p_y = 100, p_vx = 0.1, p_vy = 0.1, p_r = 1, p_o = 0.5\<rparr>"

text \<open>A particle at rest, 1000 pixels (with the offset) from a pointer at the origin.\<close>

definition far_particle :: particle where
  "far_particle = \<lparr>p_x = 999.999, p_y = 0, p_vx = 0, p_vy = 0, p_r = 1, p_o = 0.5\<rparr>"

text \<open>
  A canvas laid out at 1800 by 1000 CSS pixels (with the default 300 by 150 buffer of a
  new canvas element), and the same canvas after \<open>resize\<close> at a device pixel ratio of 2.
\<close>

definition hero_canvas :: canvas where
  "hero_canvas = \<lparr>clientWidth = 1800, clientHeight = 1000, width = 300, height = 150\<rparr>"

definition retina_canvas :: canvas where
  "retina_canvas = resize 2 hero_canvas"

text \<open>
  Two random sources: one that always answers one half, and one that answers
  \<open>0, 0.1, ..., 0.9\<close> in turn.
\<close>

definition half :: "nat \<Rightarrow> real" where
  "half i = 0.5"

definition ramp :: "nat \<Rightarrow> real" where
  "ramp i = real (i mod 10) / 10"

text \<open>A window with nothing registered, and the two components before their first effect.\<close>

definition fresh_window :: window where
  "fresh_window = \<lparr>devicePixelRatio = 2, resize_listeners = [], frame_requests = [],
     next_handle = 0, random_calls = 0\<rparr>"

definition unmounted_waves :: sound_waves where
  "unmounted_waves = \<lparr>sw_canvas = Some hero_canvas, sw_height = 360, sw_mouse = (0, 0), t = 0,
     sw_raf = None, sw_closure = 0, sw_has_cleanup = False\<rparr>"

definition unmounted_field :: particle_field where
  "unmounted_field = \<lparr>pf_canvas = Some hero_canvas, particles = [], mouse = (0, 0), raf = None,
     closure = 0, deps = None, has_cleanup = False\<rparr>"



text \<open>A filled form, a network that is down, and servers that answer 200 and 500.\<close>

definition filled_form :: lead_form where
  "filled_form = \<lparr>state = \<lparr>name = ''Ada'', email = ''ada@example.org'', phone = ''555'',
     company = ''Engines'', message = ''Call me''\<rparr>, loading = False, ok = None\<rparr>"

definition offline :: "request \<Rightarrow> fetch_result" where
  "offline req = NetworkError"

definition answers :: "int \<Rightarrow> request \<Rightarrow> fetch_result" where
  "answers status req = Response status"

definition empty_storage :: storage where
  "empty_storage = Map.empty"

section \<open>The update step of the simulator\<close>

lemma repel_spec:
  "repel mx my p = p\<lparr>p_vx := spec_pushed_vx mx my p, p_vy := spec_pushed_vy mx my p\<rparr>"
  by (simp add: repel_def spec_pushed_vx_def spec_pushed_vy_def spec_force_def spec_dist_def
      spec_epsilon_def Let_def power2_eq_square)

lemma move_sel [simp]:
  "p_x (move p) = p_x p + p_vx p" "p_y (move p) = p_y p + p_vy p"
  "p_vx (move p) = p_vx p" "p_vy (move p) = p_vy p" "p_r (move p) = p_r p" "p_o (move p) = p_o p"
  by (simp_all add: move_def Let_def)

lemma damp_sel [simp]:
  "p_x (damp p) = p_x p" "p_y (damp p) = p_y p"
  "p_vx (damp p) = p_vx p * 0.98" "p_vy (damp p) = p_vy p * 0.98"
  "p_r (damp p) = p_r p" "p_o (damp p) = p_o p"
  by (simp_all add: damp_def Let_def)

lemma bounce_sel [simp]:
  "p_x (bounce cw ch p) = p_x p" "p_y (bounce cw ch p) = p_y p"
  "p_vx (bounce cw ch p) = (if p_x p < 0 \<or> cw < p_x p then - p_vx p else p_vx p)"
  "p_vy (bounce cw ch p) = (if p_y p < 0 \<or> ch < p_y p then - p_vy p else p_vy p)"
  "p_r (bounce cw ch p) = p_r p" "p_o (bounce cw ch p) = p_o p"
  by (simp_all add: bounce_def Let_def)

lemma repel_sel [simp]:
  "p_x (repel mx my p) = p_x p" "p_y (repel mx my p) = p_y p"
  "p_vx (repel mx my p) = spec_pushed_vx mx my p" "p_vy (repel mx my p) = spec_pushed_vy mx my p"
  "p_r (repel mx my p) = p_r p" "p_o (repel mx my p) = p_o p"
  by (simp_all add: repel_spec)

lemma upd_x: "p_x (update_particle cw ch mx my p) = p_x p + spec_pushed_vx mx my p"
  by (simp add: update_particle_def)

lemma upd_y: "p_y (update_particle cw ch mx my p) = p_y p + spec_pushed_vy mx my p"
  by (simp add: update_particle_def)

lemma upd_vx:
  "p_vx (update_particle cw ch mx my p) =
     (if p_x p + spec_pushed_vx mx my p < 0 \<or> cw < p_x p + spec_pushed_vx mx my p
      then - (spec_pushed_vx mx my p * 0.98) else spec_pushed_vx mx my p * 0.98)"
  by (simp add: update_particle_def)

lemma upd_vy:
  "p_vy (update_particle cw ch mx my p) =
     (if p_y p + spec_pushed_vy mx my p < 0 \<or> ch < p_y p + spec_pushed_vy mx my p
      then - (spec_pushed_vy mx my p * 0.98) else spec_pushed_vy mx my p * 0.98)"
  by (simp add: update_particle_def)

lemma frames_Suc_right:
  "frames (Suc n) cw ch mx my p = update_particle cw ch mx my (frames n cw ch mx my p)"
  by (induction n arbitrary: p) simp_all

text \<open>
  C1. For every particle and every pointer position, one update of the source is the six
  steps of the specification in their order: displacement and distance with the offset
  \<open>0.001\<close>, force \<open>min (30 / dist) 0.6\<close>, push of each velocity component by
  \<open>(d / dist) * force * 0.02\<close>, integration of the position by the pushed velocity,
  damping by \<open>0.98\<close>, and a sign flip of the velocity component whose coordinate lies
  outside \<open>[0, width]\<close> or \<open>[0, height]\<close>. The position is the integrated one: it is not
  clamped. Radius and opacity are unchanged.
\<close>

theorem update_particle_is_spec_update:
  "update_particle cw ch mx my p = spec_update cw ch mx my p"
  by (rule particle.equality)
     (simp_all add: update_particle_def spec_update_def spec_outside_def Let_def)

text \<open>
  The frames of the component are these updates: after \<open>n\<close> display frames of a mounted
  component whose effect ran with the ratio \<open>r\<close> and the pointer \<open>(x, y)\<close>, every
  particle of the array has gone through \<open>frames n\<close> with the pointer at
  \<open>(x * r, y * r)\<close>.
\<close>

lemma loop_sel:
  "particles (snd (loop r m w c s))
     = map (update_particle (real_of_int (width c)) (real_of_int (height c)) (fst m * r) (snd m * r))
         (particles s)"
  "pf_canvas (snd (loop r m w c s)) = pf_canvas s"
  "deps (snd (loop r m w c s)) = deps s"
  by (simp_all add: loop_def requestAnimationFrame_def)

lemma display_frame_sel:
  assumes "pf_canvas s = Some c" and "deps s = Some (r, x, y)"
  shows "particles (snd (display_frame w s))
     = map (update_particle (real_of_int (width c)) (real_of_int (height c)) (x * r) (y * r))
         (particles s)"
    and "pf_canvas (snd (display_frame w s)) = Some c"
    and "deps (snd (display_frame w s)) = Some (r, x, y)"
  using assms by (simp_all add: display_frame_def loop_sel)

lemma particles_display_frames:
  assumes "pf_canvas s = Some c" and "deps s = Some (r, x, y)"
  shows "particles (snd (display_frames n w s))
     = map (frames n (real_of_int (width c)) (real_of_int (height c)) (x * r) (y * r))
         (particles s)"
  using assms
proof (induction n arbitrary: w s)
  case 0
  show ?case by simp
next
  case (Suc n)
  note sel = display_frame_sel [OF Suc.prems, of w]
  show ?case
    by (simp add: Suc.IH [OF sel(2,3)] sel(1) comp_def)
qed

subsection \<open>Size of the push and of the velocity\<close>

lemma spec_dist_gt: "sqrt ((p_x p - mx)\<^sup>2 + (p_y p - my)\<^sup>2) < spec_dist mx my p"
  by (simp add: spec_dist_def spec_epsilon_def)

lemma spec_dist_pos: "0 < spec_dist mx my p"
proof -
  have "0 \<le> sqrt ((p_x p - mx)\<^sup>2 + (p_y p - my)\<^sup>2)" by simp
  then show ?thesis using spec_dist_gt [of p mx my] by linarith
qed

lemma spec_force_pos: "0 < spec_force mx my p"
  by (simp add: spec_force_def spec_dist_pos)

lemma spec_force_le: "spec_force mx my p \<le> 0.6"
  by (simp add: spec_force_def)

lemma spec_force_le_inverse: "spec_force mx my p \<le> 30 / spec_dist mx my p"
  by (simp add: spec_force_def)

lemma sqrt_scaled: "0 \<le> k \<Longrightarrow> sqrt ((k * a)\<^sup>2 + (k * b)\<^sup>2) = k * sqrt (a\<^sup>2 + b\<^sup>2)"
proof -
  assume k: "0 \<le> k"
  have "(k * a)\<^sup>2 + (k * b)\<^sup>2 = k\<^sup>2 * (a\<^sup>2 + b\<^sup>2)"
    by (simp add: power_mult_distrib distrib_left)
  then show ?thesis using k by (simp add: real_sqrt_mult)
qed

lemma push_vector:
  "sqrt ((spec_pushed_vx mx my p - p_vx p)\<^sup>2 + (spec_pushed_vy mx my p - p_vy p)\<^sup>2)
     \<le> 0.02 * spec_force mx my p"
proof -
  define d where "d = spec_dist mx my p"
  define f where "f = spec_force mx my p"
  define k where "k = f * 0.02 / d"
  define s where "s = sqrt ((p_x p - mx)\<^sup>2 + (p_y p - my)\<^sup>2)"
  have d: "0 < d" unfolding d_def by (rule spec_dist_pos)
  have f: "0 < f" unfolding f_def by (rule spec_force_pos)
  have k: "0 \<le> k" using d f by (simp add: k_def)
  have sd: "s \<le> d" using spec_dist_gt [of p mx my] by (simp add: s_def d_def)
  have x: "spec_pushed_vx mx my p - p_vx p = k * (p_x p - mx)"
    by (simp add: spec_pushed_vx_def k_def d_def f_def mult.commute)
  have y: "spec_pushed_vy mx my p - p_vy p = k * (p_y p - my)"
    by (simp add: spec_pushed_vy_def k_def d_def f_def mult.commute)
  have "sqrt ((spec_pushed_vx mx my p - p_vx p)\<^sup>2 + (spec_pushed_vy mx my p - p_vy p)\<^sup>2)
          = k * s"
    unfolding x y s_def using k by (rule sqrt_scaled)
  also have "\<dots> \<le> k * d"
    using k sd by (rule mult_left_mono [rotated])
  also have "\<dots> = 0.02 * f" using d by (simp add: k_def)
  finally show ?thesis by (simp add: f_def)
qed

lemma push_x: "\<bar>spec_pushed_vx mx my p - p_vx p\<bar> \<le> 0.02 * spec_force mx my p"
proof -
  have "\<bar>spec_pushed_vx mx my p - p_vx p\<bar>
          \<le> sqrt ((spec_pushed_vx mx my p - p_vx p)\<^sup>2 + (spec_pushed_vy mx my p - p_vy p)\<^sup>2)"
    using real_sqrt_sum_squares_ge1
      [of "\<bar>spec_pushed_vx mx my p - p_vx p\<bar>" "spec_pushed_vy mx my p - p_vy p"]
    by simp
  then show ?thesis using push_vector [of mx my p] by linarith
qed

lemma push_y: "\<bar>spec_pushed_vy mx my p - p_vy p\<bar> \<le> 0.02 * spec_force mx my p"
proof -
  have "\<bar>spec_pushed_vy mx my p - p_vy p\<bar>
          \<le> sqrt ((spec_pushed_vx mx my p - p_vx p)\<^sup>2 + (spec_pushed_vy mx my p - p_vy p)\<^sup>2)"
    using real_sqrt_sum_squares_ge2
      [of "\<bar>spec_pushed_vy mx my p - p_vy p\<bar>" "spec_pushed_vx mx my p - p_vx p"]
    by simp
  then show ?thesis using push_vector [of mx my p] by linarith
qed

lemma push_x_small: "\<bar>spec_pushed_vx mx my p - p_vx p\<bar> \<le> 0.012"
  using push_x [of mx my p] spec_force_le [of mx my p] by simp

lemma push_y_small: "\<bar>spec_pushed_vy mx my p - p_vy p\<bar> \<le> 0.012"
  using push_y [of mx my p] spec_force_le [of mx my p] by simp

lemma abs_diff_triangle:
  fixes a b c :: real
  shows "\<bar>a - c\<bar> \<le> \<bar>a - b\<bar> + \<bar>b - c\<bar>"
  by linarith

lemma push_keeps_sign:
  fixes s v :: real
  assumes "\<bar>s - v\<bar> \<le> 0.012"
  shows "0.01274 \<le> v \<Longrightarrow> 0 < s" and "v \<le> - 0.01274 \<Longrightarrow> s < 0"
  using assms unfolding abs_le_iff by simp_all

lemma speed_repel: "speed (repel mx my p) \<le> speed p + 0.02 * spec_force mx my p"
proof -
  let ?ax = "spec_pushed_vx mx my p - p_vx p" and ?ay = "spec_pushed_vy mx my p - p_vy p"
  have "speed (repel mx my p) = sqrt ((p_vx p + ?ax)\<^sup>2 + (p_vy p + ?ay)\<^sup>2)"
    by (simp add: speed_def)
  also have "\<dots> \<le> sqrt ((p_vx p)\<^sup>2 + (p_vy p)\<^sup>2) + sqrt (?ax\<^sup>2 + ?ay\<^sup>2)"
    by (rule real_sqrt_sum_squares_triangle_ineq)
  finally show ?thesis using push_vector [of mx my p] by (simp add: speed_def)
qed

lemma speed_update: "speed (update_particle cw ch mx my p) = 0.98 * speed (repel mx my p)"
proof -
  define k :: real where "k = 0.98"
  have k: "0 \<le> k" by (simp add: k_def)
  have vx: "(p_vx (update_particle cw ch mx my p))\<^sup>2 = (k * spec_pushed_vx mx my p)\<^sup>2"
    by (simp add: update_particle_def k_def power2_eq_square)
  have vy: "(p_vy (update_particle cw ch mx my p))\<^sup>2 = (k * spec_pushed_vy mx my p)\<^sup>2"
    by (simp add: update_particle_def k_def power2_eq_square)
  have "speed (update_particle cw ch mx my p)
      = sqrt ((k * spec_pushed_vx mx my p)\<^sup>2 + (k * spec_pushed_vy mx my p)\<^sup>2)"
    by (simp only: speed_def vx vy)
  also have "\<dots> = k * sqrt ((spec_pushed_vx mx my p)\<^sup>2 + (spec_pushed_vy mx my p)\<^sup>2)"
    using k by (rule sqrt_scaled)
  finally show ?thesis by (simp add: speed_def k_def)
qed

lemma speed_step:
  "speed (update_particle cw ch mx my p) \<le> 0.98 * (speed p + 0.02 * spec_force mx my p)"
  using speed_repel [of mx my p] by (simp add: speed_update)

lemma speed_far_step:
  assumes D: "0 < D" and far: "D \<le> spec_dist mx my p"
  shows "speed (update_particle cw ch mx my p) \<le> 0.98 * (speed p + 0.6 / D)"
proof -
  have "spec_force mx my p \<le> 30 / spec_dist mx my p" by (rule spec_force_le_inverse)
  also have "\<dots> \<le> 30 / D" using D far by (simp add: frac_le)
  finally have "0.02 * spec_force mx my p \<le> 0.6 / D" by simp
  then show ?thesis using speed_step [of cw ch mx my p] by simp
qed

lemma speed_decay_floor:
  assumes D: "0 < D" and far: "\<forall>k<n. D \<le> spec_dist mx my (frames k cw ch mx my p)"
  shows "speed (frames n cw ch mx my p) \<le> 0.98 ^ n * speed p + (29.4 / D) * (1 - 0.98 ^ n)"
  using far
proof (induction n)
  case 0
  show ?case by simp
next
  case (Suc n)
  let ?q = "frames n cw ch mx my p"
  have ih: "speed ?q \<le> 0.98 ^ n * speed p + (29.4 / D) * (1 - 0.98 ^ n)"
    using Suc by simp
  have "D \<le> spec_dist mx my ?q" using Suc.prems by simp
  then have "speed (update_particle cw ch mx my ?q) \<le> 0.98 * (speed ?q + 0.6 / D)"
    by (rule speed_far_step [OF D])
  also have "\<dots> \<le> 0.98 * ((0.98 ^ n * speed p + (29.4 / D) * (1 - 0.98 ^ n)) + 0.6 / D)"
    using ih by (intro mult_left_mono add_right_mono) simp_all
  also have "\<dots> = 0.98 ^ Suc n * speed p + (29.4 / D) * (1 - 0.98 ^ Suc n)"
    using D by (simp add: field_simps)
  finally show ?case by (simp only: frames_Suc_right)
qed

text \<open>For any pointer, the speed never exceeds the larger of its initial value and \<open>0.588\<close>.\<close>

lemma speed_bounded_step:
  assumes "speed p \<le> B" and "0.588 \<le> B"
  shows "speed (update_particle cw ch mx my p) \<le> B"
proof -
  have "speed (update_particle cw ch mx my p) \<le> 0.98 * (speed p + 0.02 * spec_force mx my p)"
    by (rule speed_step)
  also have "\<dots> \<le> 0.98 * (B + 0.02 * 0.6)"
    using assms(1) spec_force_le [of mx my p] by simp
  also have "\<dots> \<le> B" using assms(2) by simp
  finally show ?thesis .
qed

lemma speed_bounded: "speed (frames n cw ch mx my p) \<le> max (speed p) 0.588"
proof (induction n)
  case 0
  show ?case by simp
next
  case (Suc n)
  show ?case unfolding frames_Suc_right
    by (rule speed_bounded_step [OF Suc]) simp
qed

lemma row_dist: "p_y p = my \<Longrightarrow> spec_dist mx my p = \<bar>p_x p - mx\<bar> + 0.001"
  by (simp add: spec_dist_def spec_epsilon_def)

lemma row_pushed_vy: "p_y p = my \<Longrightarrow> spec_pushed_vy mx my p = p_vy p"
  by (simp add: spec_pushed_vy_def)

lemma speed_row: "p_vy p = 0 \<Longrightarrow> speed p = \<bar>p_vx p\<bar>"
  by (simp add: speed_def)

text \<open>The push of \<open>repel\<close>: its exact size, and when it vanishes.\<close>

lemma push_size_eq:
  "push_size mx my p
     = 0.02 * min (30 / spec_dist mx my p) 0.6 * ((spec_dist mx my p - 0.001) / spec_dist mx my p)"
proof -
  define d where "d = spec_dist mx my p"
  define f where "f = spec_force mx my p"
  define k where "k = f * 0.02 / d"
  have d: "0 < d" unfolding d_def by (rule spec_dist_pos)
  have f: "0 < f" unfolding f_def by (rule spec_force_pos)
  have k: "0 \<le> k" using d f by (simp add: k_def)
  have s: "sqrt ((p_x p - mx)\<^sup>2 + (p_y p - my)\<^sup>2) = d - 0.001"
    by (simp add: d_def spec_dist_def spec_epsilon_def)
  have x: "p_vx (repel mx my p) - p_vx p = k * (p_x p - mx)"
    by (simp add: spec_pushed_vx_def k_def d_def f_def mult.commute)
  have y: "p_vy (repel mx my p) - p_vy p = k * (p_y p - my)"
    by (simp add: spec_pushed_vy_def k_def d_def f_def mult.commute)
  have "push_size mx my p = k * sqrt ((p_x p - mx)\<^sup>2 + (p_y p - my)\<^sup>2)"
    unfolding push_size_def x y using k by (rule sqrt_scaled)
  also have "\<dots> = k * (d - 0.001)" by (simp only: s)
  also have "\<dots> = 0.02 * f * ((d - 0.001) / d)" by (simp add: k_def)
  finally show ?thesis by (simp add: f_def d_def spec_force_def)
qed

lemma push_size_zero_iff: "push_size mx my p = 0 \<longleftrightarrow> p_x p = mx \<and> p_y p = my"
proof -
  define d where "d = spec_dist mx my p"
  define f where "f = min (30 / d) 0.6"
  have d: "0 < d" unfolding d_def by (rule spec_dist_pos)
  have f: "0 < f" using d by (simp add: f_def)
  have e: "push_size mx my p = 0.02 * f * ((d - 0.001) / d)"
    unfolding f_def d_def by (rule push_size_eq)
  have "push_size mx my p = 0 \<longleftrightarrow> d - 0.001 = 0"
    using d f by (simp add: e)
  also have "\<dots> \<longleftrightarrow> sqrt ((p_x p - mx)\<^sup>2 + (p_y p - my)\<^sup>2) = 0"
    by (simp add: d_def spec_dist_def spec_epsilon_def)
  also have "\<dots> \<longleftrightarrow> p_x p = mx \<and> p_y p = my"
    by (simp add: sum_power2_eq_zero_iff)
  finally show ?thesis .
qed

lemma speed_repel_push: "speed (repel mx my p) \<le> speed p + push_size mx my p"
proof -
  let ?ax = "p_vx (repel mx my p) - p_vx p" and ?ay = "p_vy (repel mx my p) - p_vy p"
  have "speed (repel mx my p) = sqrt ((p_vx p + ?ax)\<^sup>2 + (p_vy p + ?ay)\<^sup>2)"
    by (simp add: speed_def)
  also have "\<dots> \<le> sqrt ((p_vx p)\<^sup>2 + (p_vy p)\<^sup>2) + sqrt (?ax\<^sup>2 + ?ay\<^sup>2)"
    by (rule real_sqrt_sum_squares_triangle_ineq)
  finally show ?thesis by (simp add: speed_def push_size_def)
qed

lemma speed_at_rest: "speed p = 0 \<Longrightarrow> speed (repel mx my p) = push_size mx my p"
proof -
  assume "speed p = 0"
  then have "p_vx p = 0 \<and> p_vy p = 0"
    by (simp add: speed_def sum_power2_eq_zero_iff)
  then show ?thesis by (simp add: speed_def push_size_def)
qed

text \<open>One update moves a particle by its pushed velocity, which is at most its speed plus \<open>0.012\<close>.\<close>

lemma step_x: "\<bar>p_x (update_particle cw ch mx my p) - p_x p\<bar> \<le> speed p + 0.012"
proof -
  have "\<bar>spec_pushed_vx mx my p\<bar> \<le> speed (repel mx my p)"
    using real_sqrt_sum_squares_ge1 [of "\<bar>spec_pushed_vx mx my p\<bar>" "spec_pushed_vy mx my p"]
    by (simp add: speed_def)
  also have "\<dots> \<le> speed p + 0.012"
    using speed_repel [of mx my p] spec_force_le [of mx my p] by simp
  finally show ?thesis by (simp add: upd_x)
qed

lemma step_y: "\<bar>p_y (update_particle cw ch mx my p) - p_y p\<bar> \<le> speed p + 0.012"
proof -
  have "\<bar>spec_pushed_vy mx my p\<bar> \<le> speed (repel mx my p)"
    using real_sqrt_sum_squares_ge2 [of "\<bar>spec_pushed_vy mx my p\<bar>" "spec_pushed_vx mx my p"]
    by (simp add: speed_def)
  also have "\<dots> \<le> speed p + 0.012"
    using speed_repel [of mx my p] spec_force_le [of mx my p] by simp
  finally show ?thesis by (simp add: upd_y)
qed

text \<open>Every particle of the initialisation starts with a speed of at most \<open>0.588\<close>.\<close>

lemma new_particle_speed:
  assumes "\<forall>i. 0 \<le> rnd i \<and> rnd i < 1"
  shows "speed (new_particle rnd k c) \<le> 0.588"
proof -
  define a where "a = (rnd (k + 2) - 0.5) * 0.4"
  define b where "b = (rnd (k + 3) - 0.5) * 0.4"
  have r: "0 \<le> rnd i" "rnd i < 1" for i using assms [rule_format, of i] by simp_all
  have x: "\<bar>a\<bar> \<le> 0.2" using r [of "k + 2"] by (simp add: a_def abs_le_iff)
  have y: "\<bar>b\<bar> \<le> 0.2" using r [of "k + 3"] by (simp add: b_def abs_le_iff)
  have v: "p_vx (new_particle rnd k c) = a" "p_vy (new_particle rnd k c) = b"
    by (simp_all add: new_particle_def a_def b_def)
  have "speed (new_particle rnd k c) = sqrt (a\<^sup>2 + b\<^sup>2)"
    by (simp only: speed_def v)
  also have "\<dots> \<le> \<bar>a\<bar> + \<bar>b\<bar>" by (rule sqrt_sum_squares_le_sum_abs)
  finally show ?thesis using x y by simp
qed

section \<open>Boundedness\<close>

text \<open>
  Left of the canvas and level with the pointer at \<open>(10, 50)\<close>, within 50 pixels of it,
  the push is the capped one and points outward.
\<close>

lemma drift_push:
  assumes x: "p_x p < 0" "- 39 \<le> p_x p" and y: "p_y p = 50"
  shows "p_vx p - 0.012 \<le> spec_pushed_vx 10 50 p"
    and "spec_pushed_vx 10 50 p \<le> p_vx p - 0.0119988"
proof -
  define d where "d = spec_dist 10 50 p"
  define r where "r = (p_x p - 10) / d"
  have d: "d = 10.001 - p_x p" using x y by (simp add: d_def row_dist)
  have dpos: "0 < d" using x d by simp
  have "30 / d \<ge> 0.6" using x dpos d by (simp add: field_simps)
  then have f: "spec_force 10 50 p = 0.6" by (simp add: spec_force_def d_def)
  have r1: "- 1 \<le> r" using dpos d by (simp add: r_def field_simps)
  have r2: "r \<le> - 0.9999" using dpos d x by (simp add: r_def field_simps)
  have v: "spec_pushed_vx 10 50 p = p_vx p + r * 0.6 * 0.02"
    by (simp add: spec_pushed_vx_def f r_def d_def)
  show "p_vx p - 0.012 \<le> spec_pushed_vx 10 50 p" using r1 by (simp add: v)
  show "spec_pushed_vx 10 50 p \<le> p_vx p - 0.0119988" using r2 by (simp add: v)
qed

text \<open>
  One frame of a drifting particle: the push beats the small inward velocity, the
  particle moves further out, is still outside, and the flip turns its outward velocity
  into the next small inward one.
\<close>

lemma drift_step:
  assumes inv: "drifting p" and lo: "- 39 \<le> p_x p"
  shows "drifting (update_particle 100 100 10 50 p)"
    and "p_x (update_particle 100 100 10 50 p) \<le> p_x p - 0.00565"
    and "p_x p - 0.006465 \<le> p_x (update_particle 100 100 10 50 p)"
proof -
  let ?q = "update_particle 100 100 10 50 p"
  have x: "p_x p < 0" and y: "p_y p = 50" and vy: "p_vy p = 0"
    and v1: "0.005535 \<le> p_vx p" and v2: "p_vx p \<le> 0.00634"
    using inv by (simp_all add: drifting_def)
  note push = drift_push [OF x lo y]
  have qx: "p_x ?q = p_x p + spec_pushed_vx 10 50 p"
    by (simp add: update_particle_def)
  show b1: "p_x ?q \<le> p_x p - 0.00565" using push(2) v2 by (simp add: qx)
  show "p_x p - 0.006465 \<le> p_x ?q" using push(1) v1 by (simp add: qx)
  have neg: "p_x ?q < 0" using b1 x by simp
  have qv: "p_vx ?q = - (spec_pushed_vx 10 50 p * 0.98)"
    using neg by (simp add: update_particle_def)
  have qy: "p_y ?q = 50" "p_vy ?q = 0"
    using y vy by (simp_all add: update_particle_def row_pushed_vy)
  have "0.005535 \<le> p_vx ?q" using push(2) v2 by (simp add: qv)
  moreover have "p_vx ?q \<le> 0.00634" using push(1) v1 by (simp add: qv)
  ultimately show "drifting ?q" using neg qy by (simp add: drifting_def)
qed

lemma drift_frames:
  assumes inv: "drifting p" and lo: "- 39 + 0.006465 * real n \<le> p_x p"
  shows "drifting (frames n 100 100 10 50 p)
       \<and> p_x (frames n 100 100 10 50 p) \<le> p_x p - 0.00565 * real n
       \<and> p_x p - 0.006465 * real n \<le> p_x (frames n 100 100 10 50 p)"
  using lo
proof (induction n)
  case 0
  show ?case using inv by simp
next
  case (Suc n)
  let ?q = "frames n 100 100 10 50 p"
  have "- 39 + 0.006465 * real n \<le> p_x p" using Suc.prems by (simp add: algebra_simps)
  then have ih: "drifting ?q" "p_x ?q \<le> p_x p - 0.00565 * real n"
    "p_x p - 0.006465 * real n \<le> p_x ?q"
    using Suc.IH by simp_all
  have lo': "- 39 \<le> p_x ?q" using ih(3) Suc.prems by (simp add: algebra_simps)
  note st = drift_step [OF ih(1) lo']
  have e: "0.00565 * real (Suc n) = 0.00565 * real n + 0.00565"
    "0.006465 * real (Suc n) = 0.006465 * real n + 0.006465"
    by (simp_all add: algebra_simps)
  have up: "p_x (update_particle 100 100 10 50 ?q) \<le> p_x p - (0.00565 * real n + 0.00565)"
    using st(2) ih(2) by linarith
  have low: "p_x p - (0.006465 * real n + 0.006465) \<le> p_x (update_particle 100 100 10 50 ?q)"
    using st(3) ih(3) by linarith
  show ?case unfolding frames_Suc_right e using st(1) up low by blast
qed

lemma edge_first_frame:
  "update_particle 100 100 10 50 edge_particle
     = \<lparr>p_x = - 0.0049988, p_y = 50, p_vx = 0.005878824, p_vy = 0, p_r = 1, p_o = 0.5\<rparr>"
proof -
  have d: "spec_dist 10 50 edge_particle = 10"
    by (simp add: row_dist edge_particle_def)
  have f: "spec_force 10 50 edge_particle = 0.6"
    by (simp add: spec_force_def d)
  have v: "spec_pushed_vx 10 50 edge_particle = - 0.0059988"
    by (simp add: spec_pushed_vx_def d f) (simp add: edge_particle_def)
  have w: "spec_pushed_vy 10 50 edge_particle = 0"
    by (simp add: row_pushed_vy edge_particle_def)
  show ?thesis
    by (rule particle.equality) (simp_all add: update_particle_def v w, simp_all add: edge_particle_def)
qed

text \<open>
  C2, as the code has it. For every number of frames and every initial point whose speed
  is at most \<open>0.588\<close>, with the pointer at rest: the speed stays at most \<open>0.588\<close>; one
  update moves the point by at most \<open>0.6\<close> in each coordinate; and after \<open>n\<close> updates
  each coordinate is within \<open>0.6 * n\<close> of its initial value.
\<close>

theorem speed_and_step_bounded:
  assumes "speed p \<le> 0.588"
  shows "speed (frames n cw ch mx my p) \<le> 0.588
       \<and> \<bar>p_x (frames (Suc n) cw ch mx my p) - p_x (frames n cw ch mx my p)\<bar> \<le> 0.6
       \<and> \<bar>p_y (frames (Suc n) cw ch mx my p) - p_y (frames n cw ch mx my p)\<bar> \<le> 0.6
       \<and> \<bar>p_x (frames n cw ch mx my p) - p_x p\<bar> \<le> 0.6 * real n
       \<and> \<bar>p_y (frames n cw ch mx my p) - p_y p\<bar> \<le> 0.6 * real n"
proof -
  have sp: "speed (frames k cw ch mx my p) \<le> 0.588" for k
    using speed_bounded [of k cw ch mx my p] assms by simp
  have sx: "\<bar>p_x (frames (Suc k) cw ch mx my p) - p_x (frames k cw ch mx my p)\<bar> \<le> 0.6" for k
    unfolding frames_Suc_right
    using step_x [of cw ch mx my "frames k cw ch mx my p"] sp [of k] by simp
  have sy: "\<bar>p_y (frames (Suc k) cw ch mx my p) - p_y (frames k cw ch mx my p)\<bar> \<le> 0.6" for k
    unfolding frames_Suc_right
    using step_y [of cw ch mx my "frames k cw ch mx my p"] sp [of k] by simp
  have tx: "\<bar>p_x (frames k cw ch mx my p) - p_x p\<bar> \<le> 0.6 * real k" for k
  proof (induction k)
    case 0
    show ?case by simp
  next
    case (Suc k)
    have "\<bar>p_x (frames (Suc k) cw ch mx my p) - p_x p\<bar>
        \<le> \<bar>p_x (frames (Suc k) cw ch mx my p) - p_x (frames k cw ch mx my p)\<bar>
          + \<bar>p_x (frames k cw ch mx my p) - p_x p\<bar>"
      by (rule abs_diff_triangle)
    also have "\<dots> \<le> 0.6 + 0.6 * real k"
      by (rule add_mono [OF sx Suc])
    finally show ?case by (simp add: algebra_simps)
  qed
  have ty: "\<bar>p_y (frames k cw ch mx my p) - p_y p\<bar> \<le> 0.6 * real k" for k
  proof (induction k)
    case 0
    show ?case by simp
  next
    case (Suc k)
    have "\<bar>p_y (frames (Suc k) cw ch mx my p) - p_y p\<bar>
        \<le> \<bar>p_y (frames (Suc k) cw ch mx my p) - p_y (frames k cw ch mx my p)\<bar>
          + \<bar>p_y (frames k cw ch mx my p) - p_y p\<bar>"
      by (rule abs_diff_triangle)
    also have "\<dots> \<le> 0.6 + 0.6 * real k"
      by (rule add_mono [OF sy Suc])
    finally show ?case by (simp add: algebra_simps)
  qed
  from sp sx sy tx ty show ?thesis by blast
qed

text \<open>
  The theorem for 5401 frames of the particle just inside the left edge, with the
  pointer at rest at \<open>(10, 50)\<close>.
\<close>

theorem speed_and_step_bounded_witness:
  "speed edge_particle \<le> 0.588
   \<and> speed (frames 5401 100 100 10 50 edge_particle) \<le> 0.588
   \<and> \<bar>p_x (frames (Suc 5401) 100 100 10 50 edge_particle)
        - p_x (frames 5401 100 100 10 50 edge_particle)\<bar> \<le> 0.6
   \<and> \<bar>p_y (frames (Suc 5401) 100 100 10 50 edge_particle)
        - p_y (frames 5401 100 100 10 50 edge_particle)\<bar> \<le> 0.6
   \<and> \<bar>p_x (frames 5401 100 100 10 50 edge_particle) - p_x edge_particle\<bar> \<le> 0.6 * real 5401
   \<and> \<bar>p_y (frames 5401 100 100 10 50 edge_particle) - p_y edge_particle\<bar> \<le> 0.6 * real 5401"
proof -
  have s: "speed edge_particle \<le> 0.588"
    by (simp add: speed_row edge_particle_def)
  show ?thesis
    using s speed_and_step_bounded [OF s, of 5401 100 100 10 50] by blast
qed

text \<open>
  C2, as the specification states it, fails in its position half: no margin of one
  frame's overshoot holds the points. On a 100 by 100 canvas with the pointer at rest at
  \<open>(10, 50)\<close>, the particle that starts inside at \<open>(0.001, 50)\<close> with velocity
  \<open>(0.006, 0)\<close> is pushed across the left edge in the first frame. From then on every
  frame goes the same way: the reflection has left it a small inward velocity, the
  pointer's push (about \<open>0.012\<close>, away from the pointer and so outward) outweighs it,
  the particle moves further out by about \<open>0.006\<close>, and the reflection turns the outward
  velocity inward again. After 201 frames it is more than one pixel outside, after 5401
  frames more than thirty.
\<close>

theorem particle_escapes_canvas:
  "0 \<le> p_x edge_particle \<and> p_x edge_particle \<le> 100
   \<and> 0 \<le> p_y edge_particle \<and> p_y edge_particle \<le> 100
   \<and> p_x (frames 201 100 100 10 50 edge_particle) < - 1
   \<and> p_x (frames 5401 100 100 10 50 edge_particle) < - 30"
proof -
  let ?p1 = "update_particle 100 100 10 50 edge_particle"
  have inv: "drifting ?p1" by (simp add: edge_first_frame drifting_def)
  have x1: "p_x ?p1 = - 0.0049988" by (simp add: edge_first_frame)
  have a: "p_x (frames 200 100 100 10 50 ?p1) < - 1"
    using drift_frames [OF inv, of 200] by (simp add: x1)
  have b: "p_x (frames 5400 100 100 10 50 ?p1) < - 30"
    using drift_frames [OF inv, of 5400] by (simp add: x1)
  have s: "\<And>n. frames (Suc n) 100 100 10 50 edge_particle = frames n 100 100 10 50 ?p1"
    by simp
  have "frames 201 100 100 10 50 edge_particle = frames 200 100 100 10 50 ?p1"
    using s [of 200] by simp
  moreover have "frames 5401 100 100 10 50 edge_particle = frames 5400 100 100 10 50 ?p1"
    using s [of 5400] by simp
  ultimately show ?thesis using a b by (simp add: edge_particle_def)
qed

section \<open>Reflection at a boundary\<close>

lemma reflect_low_x:
  assumes "p_x p = 0" and "p_vx p \<le> - 0.025"
  shows "0 < p_vx (update_particle cw ch mx my p)"
    and "p_x (update_particle cw ch mx my p)
          < p_x (update_particle cw ch mx my (update_particle cw ch mx my p))"
proof -
  let ?q = "update_particle cw ch mx my p"
  have a: "spec_pushed_vx mx my p \<le> - 0.013"
    using push_x_small [of mx my p] assms(2) by linarith
  then have v: "p_vx ?q = - (spec_pushed_vx mx my p * 0.98)"
    using assms(1) by (simp add: upd_vx)
  then have big: "0.01274 \<le> p_vx ?q" using a by simp
  then show "0 < p_vx ?q" by simp
  have "0 < spec_pushed_vx mx my ?q"
    using push_x_small [of mx my ?q] big by (rule push_keeps_sign(1))
  then show "p_x ?q < p_x (update_particle cw ch mx my ?q)"
    by (simp add: upd_x [of cw ch mx my ?q])
qed

lemma reflect_high_x:
  assumes "p_x p = cw" and "0.025 \<le> p_vx p"
  shows "p_vx (update_particle cw ch mx my p) < 0"
    and "p_x (update_particle cw ch mx my (update_particle cw ch mx my p))
          < p_x (update_particle cw ch mx my p)"
proof -
  let ?q = "update_particle cw ch mx my p"
  have a: "0.013 \<le> spec_pushed_vx mx my p"
    using push_x_small [of mx my p] assms(2) by linarith
  then have v: "p_vx ?q = - (spec_pushed_vx mx my p * 0.98)"
    using assms(1) by (simp add: upd_vx)
  then have big: "p_vx ?q \<le> - 0.01274" using a by simp
  then show "p_vx ?q < 0" by simp
  have "spec_pushed_vx mx my ?q < 0"
    using push_x_small [of mx my ?q] big by (rule push_keeps_sign(2))
  then show "p_x (update_particle cw ch mx my ?q) < p_x ?q"
    by (simp add: upd_x [of cw ch mx my ?q])
qed

lemma reflect_low_y:
  assumes "p_y p = 0" and "p_vy p \<le> - 0.025"
  shows "0 < p_vy (update_particle cw ch mx my p)"
    and "p_y (update_particle cw ch mx my p)
          < p_y (update_particle cw ch mx my (update_particle cw ch mx my p))"
proof -
  let ?q = "update_particle cw ch mx my p"
  have a: "spec_pushed_vy mx my p \<le> - 0.013"
    using push_y_small [of mx my p] assms(2) by linarith
  then have v: "p_vy ?q = - (spec_pushed_vy mx my p * 0.98)"
    using assms(1) by (simp add: upd_vy)
  then have big: "0.01274 \<le> p_vy ?q" using a by simp
  then show "0 < p_vy ?q" by simp
  have "0 < spec_pushed_vy mx my ?q"
    using push_y_small [of mx my ?q] big by (rule push_keeps_sign(1))
  then show "p_y ?q < p_y (update_particle cw ch mx my ?q)"
    by (simp add: upd_y [of cw ch mx my ?q])
qed

lemma reflect_high_y:
  assumes "p_y p = ch" and "0.025 \<le> p_vy p"
  shows "p_vy (update_particle cw ch mx my p) < 0"
    and "p_y (update_particle cw ch mx my (update_particle cw ch mx my p))
          < p_y (update_particle cw ch mx my p)"
proof -
  let ?q = "update_particle cw ch mx my p"
  have a: "0.013 \<le> spec_pushed_vy mx my p"
    using push_y_small [of mx my p] assms(2) by linarith
  then have v: "p_vy ?q = - (spec_pushed_vy mx my p * 0.98)"
    using assms(1) by (simp add: upd_vy)
  then have big: "p_vy ?q \<le> - 0.01274" using a by simp
  then show "p_vy ?q < 0" by simp
  have "spec_pushed_vy mx my ?q < 0"
    using push_y_small [of mx my ?q] big by (rule push_keeps_sign(2))
  then show "p_y (update_particle cw ch mx my ?q) < p_y ?q"
    by (simp add: upd_y [of cw ch mx my ?q])
qed

text \<open>
  C6, as the code has it. A particle exactly on a boundary of the canvas whose outward
  velocity component is at least \<open>0.025\<close> per frame (more than the pointer can add or
  take away in two frames) has that component's sign flipped by one update, and the
  next update moves it back toward the inside. This holds on all four boundaries and
  for every pointer position.
\<close>

theorem fast_particle_reflects_at_boundary:
  "(p_x p = 0 \<and> p_vx p \<le> - 0.025 \<longrightarrow>
      0 < p_vx (frames 1 cw ch mx my p) \<and> p_x (frames 1 cw ch mx my p) < p_x (frames 2 cw ch mx my p))
   \<and> (p_x p = cw \<and> 0.025 \<le> p_vx p \<longrightarrow>
      p_vx (frames 1 cw ch mx my p) < 0 \<and> p_x (frames 2 cw ch mx my p) < p_x (frames 1 cw ch mx my p))
   \<and> (p_y p = 0 \<and> p_vy p \<le> - 0.025 \<longrightarrow>
      0 < p_vy (frames 1 cw ch mx my p) \<and> p_y (frames 1 cw ch mx my p) < p_y (frames 2 cw ch mx my p))
   \<and> (p_y p = ch \<and> 0.025 \<le> p_vy p \<longrightarrow>
      p_vy (frames 1 cw ch mx my p) < 0 \<and> p_y (frames 2 cw ch mx my p) < p_y (frames 1 cw ch mx my p))"
proof -
  have f1: "frames 1 cw ch mx my p = update_particle cw ch mx my p" by simp
  have f2: "frames 2 cw ch mx my p = update_particle cw ch mx my (update_particle cw ch mx my p)"
    by (simp add: numeral_2_eq_2)
  show ?thesis unfolding f1 f2
    using reflect_low_x [of p cw ch mx my] reflect_high_x [of p cw ch mx my]
      reflect_low_y [of p cw ch mx my] reflect_high_y [of p ch cw mx my]
    by blast
qed

text \<open>
  The theorem at two particles in opposite corners of a 100 by 100 canvas, with the
  pointer at \<open>(40, 30)\<close>: all four cases.
\<close>

theorem fast_particle_reflects_at_boundary_witness:
  "(p_x corner_low = 0 \<and> p_vx corner_low \<le> - 0.025)
   \<and> (p_y corner_low = 0 \<and> p_vy corner_low \<le> - 0.025)
   \<and> (p_x corner_high = 100 \<and> 0.025 \<le> p_vx corner_high)
   \<and> (p_y corner_high = 100 \<and> 0.025 \<le> p_vy corner_high)
   \<and> 0 < p_vx (frames 1 100 100 40 30 corner_low)
   \<and> p_x (frames 1 100 100 40 30 corner_low) < p_x (frames 2 100 100 40 30 corner_low)
   \<and> 0 < p_vy (frames 1 100 100 40 30 corner_low)
   \<and> p_y (frames 1 100 100 40 30 corner_low) < p_y (frames 2 100 100 40 30 corner_low)
   \<and> p_vx (frames 1 100 100 40 30 corner_high) < 0
   \<and> p_x (frames 2 100 100 40 30 corner_high) < p_x (frames 1 100 100 40 30 corner_high)
   \<and> p_vy (frames 1 100 100 40 30 corner_high) < 0
   \<and> p_y (frames 2 100 100 40 30 corner_high) < p_y (frames 1 100 100 40 30 corner_high)"
proof -
  have l: "(p_x corner_low = 0 \<and> p_vx corner_low \<le> - 0.025)
      \<and> (p_y corner_low = 0 \<and> p_vy corner_low \<le> - 0.025)"
    by (simp add: corner_low_def)
  have h: "(p_x corner_high = 100 \<and> 0.025 \<le> p_vx corner_high)
      \<and> (p_y corner_high = 100 \<and> 0.025 \<le> p_vy corner_high)"
    by (simp add: corner_high_def)
  show ?thesis
    using l h fast_particle_reflects_at_boundary [of corner_low 100 100 40 30]
      fast_particle_reflects_at_boundary [of corner_high 100 100 40 30]
    by blast
qed

lemma slow_first_frame:
  "p_x (update_particle 100 100 9.999 50 slow_edge_particle) = - 0.0120988"
  "p_y (update_particle 100 100 9.999 50 slow_edge_particle) = 50"
  "p_vx (update_particle 100 100 9.999 50 slow_edge_particle) = 0.011856824"
  "p_vy (update_particle 100 100 9.999 50 slow_edge_particle) = 0"
proof -
  have d: "spec_dist 9.999 50 slow_edge_particle = 10"
    by (simp add: row_dist slow_edge_particle_def)
  have f: "spec_force 9.999 50 slow_edge_particle = 0.6"
    using d by (simp add: spec_force_def)
  have v: "spec_pushed_vx 9.999 50 slow_edge_particle = - 0.0120988"
    using d f by (simp add: spec_pushed_vx_def) (simp add: slow_edge_particle_def)
  have w: "spec_pushed_vy 9.999 50 slow_edge_particle = 0"
    by (simp add: row_pushed_vy slow_edge_particle_def)
  show "p_x (update_particle 100 100 9.999 50 slow_edge_particle) = - 0.0120988"
    using v by (simp add: upd_x) (simp add: slow_edge_particle_def)
  show "p_vx (update_particle 100 100 9.999 50 slow_edge_particle) = 0.011856824"
    using v by (simp add: upd_vx) (simp add: slow_edge_particle_def)
  show "p_y (update_particle 100 100 9.999 50 slow_edge_particle) = 50"
    using w by (simp add: upd_y) (simp add: slow_edge_particle_def)
  show "p_vy (update_particle 100 100 9.999 50 slow_edge_particle) = 0"
    using w by (simp add: upd_vy)
qed

text \<open>
  C6, as the specification states it, fails for a slow particle. On a 100 by 100 canvas
  with the pointer at \<open>(9.999, 50)\<close>, the particle on the left edge at \<open>(0, 50)\<close> with
  the outward velocity \<open>- 0.0001\<close> is at \<open>x = - 0.0120988\<close> after one update, with its
  velocity flipped to \<open>0.011856824\<close>; the pointer's push of the second update
  (\<open>- 0.0119988...\<close>) is larger, and the integration step moves it further out, not
  back.
\<close>

theorem slow_particle_keeps_moving_outward:
  "p_x slow_edge_particle = 0 \<and> p_vx slow_edge_particle < 0
   \<and> p_x (frames 2 100 100 9.999 50 slow_edge_particle)
        < p_x (frames 1 100 100 9.999 50 slow_edge_particle)"
proof -
  define q where "q = update_particle 100 100 9.999 50 slow_edge_particle"
  have q: "p_x q = - 0.0120988" "p_y q = 50" "p_vx q = 0.011856824"
    unfolding q_def by (rule slow_first_frame)+
  have d: "spec_dist 9.999 50 q = 10.0120988"
    using q by (simp add: row_dist)
  have f: "spec_force 9.999 50 q = 0.6"
    unfolding spec_force_def d by simp
  have "spec_pushed_vx 9.999 50 q < 0"
    unfolding spec_pushed_vx_def d f q by simp
  then have "p_x (update_particle 100 100 9.999 50 q) < p_x q"
    by (simp add: upd_x [of 100 100 _ 50 q])
  then show ?thesis by (simp add: numeral_2_eq_2 slow_edge_particle_def q_def)
qed

section \<open>Damping\<close>

lemma far_first_frame:
  "p_x (update_particle 2000 1000 0 0 far_particle) = 999.9995999994"
  "p_y (update_particle 2000 1000 0 0 far_particle) = 0"
  "p_vx (update_particle 2000 1000 0 0 far_particle) = 0.000587999412"
  "p_vy (update_particle 2000 1000 0 0 far_particle) = 0"
proof -
  have d: "spec_dist 0 0 far_particle = 1000"
    by (simp add: row_dist far_particle_def)
  have f: "spec_force 0 0 far_particle = 0.03"
    unfolding spec_force_def d by simp
  have v: "spec_pushed_vx 0 0 far_particle = 0.0005999994"
    unfolding spec_pushed_vx_def d f by (simp add: far_particle_def)
  have w: "spec_pushed_vy 0 0 far_particle = 0"
    by (simp add: row_pushed_vy far_particle_def)
  show "p_x (update_particle 2000 1000 0 0 far_particle) = 999.9995999994"
    unfolding upd_x v by (simp add: far_particle_def)
  show "p_vx (update_particle 2000 1000 0 0 far_particle) = 0.000587999412"
    unfolding upd_vx v by (simp add: far_particle_def)
  show "p_y (update_particle 2000 1000 0 0 far_particle) = 0"
    unfolding upd_y w by (simp add: far_particle_def)
  show "p_vy (update_particle 2000 1000 0 0 far_particle) = 0"
    unfolding upd_vy w by simp
qed

text \<open>
  C7, as the code has it. With the pointer held fixed, every update first adds the
  pointer's push to the velocity and then scales the speed by exactly \<open>0.98\<close>. The
  push has the size \<open>0.02 * min (30 / dist) 0.6 * (dist - 0.001) / dist\<close>, which is zero
  exactly when the point is on the pointer, and it raises the speed by at most its size.
  A point at rest therefore leaves the update with the speed \<open>0.98\<close> times the push.
  While the pointer stays at distance at least \<open>D\<close> during \<open>n\<close> frames, the excess of
  the speed over \<open>29.4 / D\<close> shrinks at least geometrically, with ratio \<open>0.98\<close> per
  frame.
\<close>

theorem damping_after_push:
  assumes "0 < D" and "\<forall>k<n. D \<le> spec_dist mx my (frames k cw ch mx my p)"
  shows "speed (update_particle cw ch mx my p) = 0.98 * speed (repel mx my p)
    \<and> push_size mx my p
        = 0.02 * min (30 / spec_dist mx my p) 0.6
            * ((spec_dist mx my p - 0.001) / spec_dist mx my p)
    \<and> (push_size mx my p = 0 \<longleftrightarrow> p_x p = mx \<and> p_y p = my)
    \<and> speed (repel mx my p) \<le> speed p + push_size mx my p
    \<and> (speed p = 0 \<longrightarrow> speed (update_particle cw ch mx my p) = 0.98 * push_size mx my p)
    \<and> speed (frames n cw ch mx my p) - 29.4 / D \<le> 0.98 ^ n * (speed p - 29.4 / D)"
proof -
  have 1: "speed (update_particle cw ch mx my p) = 0.98 * speed (repel mx my p)"
    by (rule speed_update)
  have 5: "speed p = 0 \<longrightarrow> speed (update_particle cw ch mx my p) = 0.98 * push_size mx my p"
    by (simp add: speed_update speed_at_rest)
  have "speed (frames n cw ch mx my p) \<le> 0.98 ^ n * speed p + (29.4 / D) * (1 - 0.98 ^ n)"
    by (rule speed_decay_floor [OF assms])
  then have 6: "speed (frames n cw ch mx my p) - 29.4 / D \<le> 0.98 ^ n * (speed p - 29.4 / D)"
    by (simp add: algebra_simps)
  from 1 push_size_eq push_size_zero_iff speed_repel_push 5 6 show ?thesis by blast
qed

text \<open>
  The theorem for two frames of the particle at rest 1000 pixels from a pointer at the
  origin, on a 2000 by 1000 canvas: the push is not zero, and the first update leaves
  the particle moving.
\<close>

theorem damping_after_push_witness:
  "(0::real) < 1000
   \<and> 1000 \<le> spec_dist 0 0 (frames 0 2000 1000 0 0 far_particle)
   \<and> 1000 \<le> spec_dist 0 0 (frames 1 2000 1000 0 0 far_particle)
   \<and> speed far_particle = 0
   \<and> push_size 0 0 far_particle = 0.0005999994
   \<and> push_size 0 0 far_particle \<noteq> 0
   \<and> speed (update_particle 2000 1000 0 0 far_particle) = 0.98 * 0.0005999994
   \<and> speed (frames 2 2000 1000 0 0 far_particle) - 29.4 / 1000
        \<le> 0.98 ^ 2 * (speed far_particle - 29.4 / 1000)"
proof -
  have d0: "spec_dist 0 0 far_particle = 1000"
    by (simp add: row_dist far_particle_def)
  have d1: "1000 \<le> spec_dist 0 0 (update_particle 2000 1000 0 0 far_particle)"
    by (simp add: row_dist far_first_frame)
  have far: "\<forall>k<2. 1000 \<le> spec_dist 0 0 (frames k 2000 1000 0 0 far_particle)"
  proof (intro allI impI)
    fix k :: nat assume "k < 2"
    then have "k = 0 \<or> k = 1" by auto
    then show "1000 \<le> spec_dist 0 0 (frames k 2000 1000 0 0 far_particle)"
      using d0 d1 by auto
  qed
  have pos: "(0::real) < 1000" by simp
  have s0: "speed far_particle = 0" by (simp add: speed_def far_particle_def)
  note th = damping_after_push [OF pos far]
  have size: "push_size 0 0 far_particle = 0.0005999994"
    using th unfolding d0 by simp
  have moving: "speed (update_particle 2000 1000 0 0 far_particle) = 0.98 * 0.0005999994"
    using th s0 size by simp
  have bound: "speed (frames 2 2000 1000 0 0 far_particle) - 29.4 / 1000
        \<le> 0.98 ^ 2 * (speed far_particle - 29.4 / 1000)"
    using th by blast
  show ?thesis
    using pos d0 d1 s0 size moving bound by simp
qed

lemma far_second_frame:
  "speed (update_particle 2000 1000 0 0 far_particle)
     < speed (update_particle 2000 1000 0 0 (update_particle 2000 1000 0 0 far_particle))"
proof -
  define q where "q = update_particle 2000 1000 0 0 far_particle"
  have q: "p_x q = 999.9995999994" "p_y q = 0" "p_vx q = 0.000587999412" "p_vy q = 0"
    unfolding q_def by (rule far_first_frame)+
  have d: "spec_dist 0 0 q = 1000.0005999994"
    using q by (simp add: row_dist)
  have f: "spec_force 0 0 q = 30 / 1000.0005999994"
    unfolding spec_force_def d by simp
  have v: "0.0011 < spec_pushed_vx 0 0 q"
    unfolding spec_pushed_vx_def d f q by simp
  have w: "spec_pushed_vy 0 0 q = 0" using q by (simp add: row_pushed_vy)
  have "speed (repel 0 0 q) = \<bar>spec_pushed_vx 0 0 q\<bar>"
    using w by (simp add: speed_row)
  then have "speed (update_particle 2000 1000 0 0 q) = 0.98 * spec_pushed_vx 0 0 q"
    using v by (simp add: speed_update)
  moreover have "speed q = 0.000587999412" using q by (simp add: speed_row)
  ultimately show ?thesis using v by (simp add: q_def)
qed

text \<open>
  C7, as the specification states it, fails: the same particle is at rest, the pointer
  is fixed and 1000 pixels away, and one update leaves it with the speed
  \<open>0.000587999412\<close>, not with \<open>0.98\<close> times zero; the second update makes it
  faster still.
\<close>

theorem resting_particle_gains_speed:
  "spec_dist 0 0 far_particle = 1000 \<and> speed far_particle = 0
   \<and> \<not> speed (frames 1 2000 1000 0 0 far_particle) \<le> 0.98 ^ 1 * speed far_particle
   \<and> speed (frames 1 2000 1000 0 0 far_particle) < speed (frames 2 2000 1000 0 0 far_particle)"
proof -
  have d: "spec_dist 0 0 far_particle = 1000"
    by (simp add: row_dist far_particle_def)
  have s0: "speed far_particle = 0" by (simp add: speed_def far_particle_def)
  have "speed (update_particle 2000 1000 0 0 far_particle) = 0.000587999412"
    by (simp add: speed_row far_first_frame)
  then show ?thesis using d s0 far_second_frame by (simp add: numeral_2_eq_2)
qed

section \<open>Initialisation of the particle field\<close>

lemma length_init_particles: "length (init_particles rnd k c) = nat (max 60 (count c))"
  by (simp add: init_particles_def)

lemma nth_init_particles:
  "i < length (init_particles rnd k c) \<Longrightarrow>
     init_particles rnd k c ! i = new_particle rnd (k + 6 * i) c"
  by (simp add: init_particles_def)

lemma new_particle_ranges:
  assumes r: "\<forall>i. 0 \<le> rnd i \<and> rnd i < 1" and w: "0 \<le> width c" and h: "0 \<le> height c"
  shows "0 \<le> p_x (new_particle rnd j c) \<and> p_x (new_particle rnd j c) \<le> real_of_int (width c)
       \<and> 0 \<le> p_y (new_particle rnd j c) \<and> p_y (new_particle rnd j c) \<le> real_of_int (height c)
       \<and> - 0.2 \<le> p_vx (new_particle rnd j c) \<and> p_vx (new_particle rnd j c) \<le> 0.2
       \<and> - 0.2 \<le> p_vy (new_particle rnd j c) \<and> p_vy (new_particle rnd j c) \<le> 0.2
       \<and> 0.5 \<le> p_r (new_particle rnd j c) \<and> p_r (new_particle rnd j c) \<le> 2.5
       \<and> 0.2 \<le> p_o (new_particle rnd j c) \<and> p_o (new_particle rnd j c) \<le> 0.8"
proof -
  have a: "0 \<le> rnd i" "rnd i < 1" "rnd i \<le> 1" for i
    using r [rule_format, of i] by simp_all
  have w': "0 \<le> real_of_int (width c)" and h': "0 \<le> real_of_int (height c)"
    using w h by simp_all
  have x: "rnd j * real_of_int (width c) \<le> 1 * real_of_int (width c)"
    using a(3) w' by (rule mult_right_mono)
  have y: "rnd (j + 1) * real_of_int (height c) \<le> 1 * real_of_int (height c)"
    using a(3) h' by (rule mult_right_mono)
  have x0: "0 \<le> rnd j * real_of_int (width c)" using a(1) w' by (rule mult_nonneg_nonneg)
  have y0: "0 \<le> rnd (j + 1) * real_of_int (height c)" using a(1) h' by (rule mult_nonneg_nonneg)
  show ?thesis
    using a(1,2) [of "j + 2"] a(1,2) [of "j + 3"] a(1,2) [of "j + 4"] a(1,2) [of "j + 5"]
      x y x0 y0
    by (simp add: new_particle_def)
qed

lemma set_dimension_nonneg: "0 \<le> dflt \<Longrightarrow> 0 \<le> set_dimension dflt v"
  by (simp add: set_dimension_def unsigned_long_def Let_def)

lemma set_dimension_whole:
  "0 \<le> n \<Longrightarrow> n \<le> 2147483647 \<Longrightarrow> set_dimension dflt (real_of_int n) = n"
  by (simp add: set_dimension_def unsigned_long_def Let_def)

text \<open>
  The fraction of a product is cut off: a canvas laid out at 333 by 201 CSS pixels gets a
  499 by 301 surface at a ratio of 1.5.
\<close>

lemma resize_truncates:
  "width (resize 1.5 \<lparr>clientWidth = 333, clientHeight = 201, width = 300, height = 150\<rparr>) = 499"
  "height (resize 1.5 \<lparr>clientWidth = 333, clientHeight = 201, width = 300, height = 150\<rparr>) = 301"
proof -
  have w: "\<lfloor>(999 :: real) / 2\<rfloor> = 499" by (simp add: floor_eq_iff)
  have h: "\<lfloor>(603 :: real) / 2\<rfloor> = 301" by (simp add: floor_eq_iff)
  show "width (resize 1.5 \<lparr>clientWidth = 333, clientHeight = 201, width = 300, height = 150\<rparr>)
      = 499"
    using w by (simp add: resize_def Let_def set_dimension_def unsigned_long_def)
  show "height (resize 1.5 \<lparr>clientWidth = 333, clientHeight = 201, width = 300, height = 150\<rparr>)
      = 301"
    using h by (simp add: resize_def Let_def set_dimension_def unsigned_long_def)
qed

lemma retina_canvas_size:
  "width retina_canvas = 3600" "height retina_canvas = 2000"
  "clientWidth retina_canvas = 1800" "clientHeight retina_canvas = 1000"
proof -
  have w: "set_dimension 300 (real_of_int 1800 * 2) = 3600"
    using set_dimension_whole [of 3600 300] by simp
  have h: "set_dimension 150 (real_of_int 1000 * 2) = 2000"
    using set_dimension_whole [of 2000 150] by simp
  show "width retina_canvas = 3600" "height retina_canvas = 2000"
    "clientWidth retina_canvas = 1800" "clientHeight retina_canvas = 1000"
    using w h by (simp_all add: retina_canvas_def hero_canvas_def resize_def Let_def)
qed

text \<open>
  C5, as the code has it. For a canvas laid out at \<open>w\<close> by \<open>h\<close> CSS pixels
  (\<open>clientWidth\<close>, \<open>clientHeight\<close>) with a drawing surface of \<open>canvas.width\<close> by
  \<open>canvas.height\<close> device pixels, the initialisation creates exactly
  \<open>max 60 \<lfloor>w * h / 18000\<rfloor>\<close> points: the count comes from the layout size, not from
  the drawing surface. Point \<open>i\<close> is made from six results of \<open>Math.random\<close> of its own,
  \<open>u0\<close> to \<open>u5\<close>, consecutive in the order of the calls: position
  \<open>(u0 * canvas.width, u1 * canvas.height)\<close>, velocity
  \<open>((u2 - 0.5) * 0.4, (u3 - 0.5) * 0.4)\<close>, radius \<open>u4 * 2 + 0.5\<close>, opacity
  \<open>u5 * 0.6 + 0.2\<close>. With results in \<open>[0, 1)\<close> the position lies inside the surface,
  the velocity components in \<open>[-0.2, 0.2]\<close>, the radius in \<open>[0.5, 2.5]\<close> and the opacity
  in \<open>[0.2, 0.8]\<close>.
\<close>

theorem init_particles_count_and_values:
  assumes "\<forall>i. 0 \<le> rnd i \<and> rnd i < 1" and "0 \<le> width c" and "0 \<le> height c"
  shows "length (init_particles rnd k c)
           = nat (max 60 \<lfloor>real_of_int (clientWidth c * clientHeight c) / 18000\<rfloor>)
       \<and> (\<forall>i < length (init_particles rnd k c).
             init_particles rnd k c ! i =
               \<lparr>p_x = rnd (k + 6 * i) * real_of_int (width c),
                p_y = rnd (k + 6 * i + 1) * real_of_int (height c),
                p_vx = (rnd (k + 6 * i + 2) - 0.5) * 0.4,
                p_vy = (rnd (k + 6 * i + 3) - 0.5) * 0.4,
                p_r = rnd (k + 6 * i + 4) * 2 + 0.5,
                p_o = rnd (k + 6 * i + 5) * 0.6 + 0.2\<rparr>
           \<and> 0 \<le> p_x (init_particles rnd k c ! i)
           \<and> p_x (init_particles rnd k c ! i) \<le> real_of_int (width c)
           \<and> 0 \<le> p_y (init_particles rnd k c ! i)
           \<and> p_y (init_particles rnd k c ! i) \<le> real_of_int (height c)
           \<and> - 0.2 \<le> p_vx (init_particles rnd k c ! i) \<and> p_vx (init_particles rnd k c ! i) \<le> 0.2
           \<and> - 0.2 \<le> p_vy (init_particles rnd k c ! i) \<and> p_vy (init_particles rnd k c ! i) \<le> 0.2
           \<and> 0.5 \<le> p_r (init_particles rnd k c ! i) \<and> p_r (init_particles rnd k c ! i) \<le> 2.5
           \<and> 0.2 \<le> p_o (init_particles rnd k c ! i) \<and> p_o (init_particles rnd k c ! i) \<le> 0.8)"
proof (intro conjI allI impI)
  show "length (init_particles rnd k c)
           = nat (max 60 \<lfloor>real_of_int (clientWidth c * clientHeight c) / 18000\<rfloor>)"
    by (simp add: length_init_particles count_def)
next
  fix i assume i: "i < length (init_particles rnd k c)"
  note n = nth_init_particles [OF i]
  note r = new_particle_ranges [OF assms, of "k + 6 * i"]
  show "init_particles rnd k c ! i =
               \<lparr>p_x = rnd (k + 6 * i) * real_of_int (width c),
                p_y = rnd (k + 6 * i + 1) * real_of_int (height c),
                p_vx = (rnd (k + 6 * i + 2) - 0.5) * 0.4,
                p_vy = (rnd (k + 6 * i + 3) - 0.5) * 0.4,
                p_r = rnd (k + 6 * i + 4) * 2 + 0.5,
                p_o = rnd (k + 6 * i + 5) * 0.6 + 0.2\<rparr>"
    unfolding n new_particle_def ..
  show "0 \<le> p_x (init_particles rnd k c ! i)"
    "p_x (init_particles rnd k c ! i) \<le> real_of_int (width c)"
    "0 \<le> p_y (init_particles rnd k c ! i)"
    "p_y (init_particles rnd k c ! i) \<le> real_of_int (height c)"
    "- 0.2 \<le> p_vx (init_particles rnd k c ! i)" "p_vx (init_particles rnd k c ! i) \<le> 0.2"
    "- 0.2 \<le> p_vy (init_particles rnd k c ! i)" "p_vy (init_particles rnd k c ! i) \<le> 0.2"
    "0.5 \<le> p_r (init_particles rnd k c ! i)" "p_r (init_particles rnd k c ! i) \<le> 2.5"
    "0.2 \<le> p_o (init_particles rnd k c ! i)" "p_o (init_particles rnd k c ! i) \<le> 0.8"
    unfolding n using r by blast+
qed

lemma ramp_values:
  "ramp 42 = 0.2" "ramp 43 = 0.3" "ramp 44 = 0.4" "ramp 45 = 0.5" "ramp 46 = 0.6" "ramp 47 = 0.7"
  "ramp 642 = 0.2" "ramp 643 = 0.3" "ramp 644 = 0.4" "ramp 645 = 0.5" "ramp 646 = 0.6"
  "ramp 647 = 0.7"
  by (simp_all add: ramp_def)

lemma ramp_range: "\<forall>i. 0 \<le> ramp i \<and> ramp i < 1"
proof
  fix i :: nat
  have "i mod 10 < 10" by simp
  then have "real (i mod 10) < real 10" by (simp only: of_nat_less_iff)
  then show "0 \<le> ramp i \<and> ramp i < 1" by (simp add: ramp_def)
qed

text \<open>
  The theorem on the canvas laid out at 1800 by 1000 CSS pixels with a 3600 by 2000
  surface, and a random source that answers \<open>0, 0.1, ..., 0.9\<close> in turn: 100 particles,
  and the eighth of them in full.
\<close>

theorem init_particles_count_and_values_witness:
  "(\<forall>i. 0 \<le> ramp i \<and> ramp i < 1) \<and> 0 \<le> width retina_canvas \<and> 0 \<le> height retina_canvas
   \<and> length (init_particles ramp 0 retina_canvas) = 100
   \<and> init_particles ramp 0 retina_canvas ! 7
       = \<lparr>p_x = 720, p_y = 600, p_vx = - 0.04, p_vy = 0, p_r = 1.7, p_o = 0.62\<rparr>
   \<and> 0 \<le> p_x (init_particles ramp 0 retina_canvas ! 7)
   \<and> p_x (init_particles ramp 0 retina_canvas ! 7) \<le> 3600
   \<and> 0.5 \<le> p_r (init_particles ramp 0 retina_canvas ! 7)
   \<and> p_r (init_particles ramp 0 retina_canvas ! 7) \<le> 2.5"
proof -
  have w: "0 \<le> width retina_canvas" and h: "0 \<le> height retina_canvas"
    by (simp_all add: retina_canvas_size)
  note th = init_particles_count_and_values [OF ramp_range w h, of 0]
  have len: "length (init_particles ramp 0 retina_canvas) = 100"
    using th by (simp add: retina_canvas_size)
  have i: "7 < length (init_particles ramp 0 retina_canvas)" by (simp add: len)
  note p = th [THEN conjunct2, rule_format, OF i]
  have v: "init_particles ramp 0 retina_canvas ! 7
       = \<lparr>p_x = 720, p_y = 600, p_vx = - 0.04, p_vy = 0, p_r = 1.7, p_o = 0.62\<rparr>"
    using p by (simp add: retina_canvas_size ramp_values)
  show ?thesis
    using ramp_range w h len v by simp
qed

text \<open>
  C5, as the specification states it, fails at a device pixel ratio of 2: the drawing
  surface is 3600 by 2000 device pixels, for which the formula gives 400 points, and the
  code creates 100.
\<close>

theorem retina_canvas_particle_count:
  "width retina_canvas = 3600 \<and> height retina_canvas = 2000
   \<and> length (init_particles half 0 retina_canvas) = 100
   \<and> nat (max 60 \<lfloor>real_of_int (width retina_canvas * height retina_canvas) / 18000\<rfloor>) = 400"
  by (simp add: length_init_particles count_def retina_canvas_size)

section \<open>Effects and teardown\<close>

lemma cancel_sel [simp]:
  "resize_listeners (cancelAnimationFrame h w) = resize_listeners w"
  "next_handle (cancelAnimationFrame h w) = next_handle w"
  "random_calls (cancelAnimationFrame h w) = random_calls w"
  "devicePixelRatio (cancelAnimationFrame h w) = devicePixelRatio w"
  "frame_requests (cancelAnimationFrame (Some i) w) = filter (\<lambda>r. fst r \<noteq> i) (frame_requests w)"
  "frame_requests (cancelAnimationFrame None w) = frame_requests w"
  by (simp_all add: cancelAnimationFrame_def split: option.split)

lemma remove_sel [simp]:
  "resize_listeners (removeEventListener cb w) = removeAll cb (resize_listeners w)"
  "next_handle (removeEventListener cb w) = next_handle w"
  "random_calls (removeEventListener cb w) = random_calls w"
  "devicePixelRatio (removeEventListener cb w) = devicePixelRatio w"
  "frame_requests (removeEventListener cb w) = frame_requests w"
  by (simp_all add: removeEventListener_def)

lemma add_sel [simp]:
  "set (resize_listeners (addEventListener cb w)) = insert cb (set (resize_listeners w))"
  "next_handle (addEventListener cb w) = next_handle w"
  "random_calls (addEventListener cb w) = random_calls w"
  "devicePixelRatio (addEventListener cb w) = devicePixelRatio w"
  "frame_requests (addEventListener cb w) = frame_requests w"
  by (auto simp add: addEventListener_def)

lemma dpr_cleanup [simp]: "dpr (pf_cleanup w s) = dpr w"
  by (simp add: dpr_def pf_cleanup_def)

lemma pf_effect_window:
  assumes "pf_canvas s = Some c0"
  shows "fst (pf_effect rnd r w s) =
     (addEventListener (ParticleResize (closure s + 1)) w)
       \<lparr>random_calls := random_calls w + 6 * nat (max 60 (count (resize r c0))),
        frame_requests := frame_requests w @ [(next_handle w, ParticleLoop (closure s + 1))],
        next_handle := next_handle w + 1\<rparr>"
  using assms
  by (simp add: pf_effect_def loop_def requestAnimationFrame_def addEventListener_def Let_def
      length_init_particles)

lemma pf_effect_state:
  assumes "pf_canvas s = Some c0"
  shows "snd (pf_effect rnd r w s) =
     s\<lparr>pf_canvas := Some (resize r c0),
       particles := map (update_particle (real_of_int (width (resize r c0)))
                      (real_of_int (height (resize r c0)))
                      (fst (mouse s) * r) (snd (mouse s) * r))
                    (init_particles rnd (random_calls w) (resize r c0)),
       raf := Some (next_handle w),
       closure := closure s + 1,
       deps := Some (r, fst (mouse s), snd (mouse s)),
       has_cleanup := True\<rparr>"
  using assms
  by (simp add: pf_effect_def loop_def requestAnimationFrame_def addEventListener_def Let_def)




text \<open>
  Teardown in general. Mounting and unmounting \<open>ParticleField\<close> leaves the listeners
  and the frame requests of the window as they were (given that the closure and the
  handle of the mount are new); mounting and unmounting \<open>SoundWaves\<close> always leaves
  the listener of that mount behind.
\<close>

lemma pf_teardown_restores:
  assumes c: "pf_canvas s = Some c0"
    and fresh: "ParticleResize (closure s + 1) \<notin> set (resize_listeners w)"
    and handles: "\<forall>r \<in> set (frame_requests w). fst r \<noteq> next_handle w"
  shows "resize_listeners (pf_mount_unmount rnd w s) = resize_listeners w"
    and "frame_requests (pf_mount_unmount rnd w s) = frame_requests w"
proof -
  have pf: "pf_mount_unmount rnd w s
      = pf_cleanup (fst (pf_effect rnd (dpr w) w s)) (snd (pf_effect rnd (dpr w) w s))"
    by (simp add: pf_mount_unmount_def split_beta)
  have keep: "filter (\<lambda>r. fst r \<noteq> next_handle w) (frame_requests w) = frame_requests w"
    using handles by (simp add: filter_id_conv)
  show "resize_listeners (pf_mount_unmount rnd w s) = resize_listeners w"
    unfolding pf using fresh
    by (simp add: pf_cleanup_def pf_effect_state [OF c] pf_effect_window [OF c]
        addEventListener_def)
  show "frame_requests (pf_mount_unmount rnd w s) = frame_requests w"
    unfolding pf using keep
    by (simp add: pf_cleanup_def pf_effect_state [OF c] pf_effect_window [OF c])
qed

lemma sw_teardown_leaks:
  assumes c: "sw_canvas s = Some c0"
  shows "WavesResize (sw_closure s + 1) \<in> set (resize_listeners (sw_mount_unmount w s))"
  using c
  by (simp add: sw_mount_unmount_def sw_effect_def draw_def sw_cleanup_def Let_def
      requestAnimationFrame_def)

text \<open>
  C9. When a canvas component is unmounted, its pending animation-frame request is
  cancelled and its \<open>resize\<close> listener is removed. \<open>ParticleField\<close> does both.
  \<open>SoundWaves\<close> registers its listener in the same way, but its cleanup only cancels the
  frame: after mounting and unmounting it on a window with nothing registered, the
  listener of that mount is still registered, and a later \<open>resize\<close> event calls it.
\<close>

theorem sound_waves_resize_listener_leaks:
  "resize_listeners (sw_mount_unmount fresh_window unmounted_waves) = [WavesResize 1]
   \<and> frame_requests (sw_mount_unmount fresh_window unmounted_waves) = []
   \<and> resize_listeners (pf_mount_unmount half fresh_window unmounted_field) = []
   \<and> frame_requests (pf_mount_unmount half fresh_window unmounted_field) = []"
proof -
  have sw: "resize_listeners (sw_mount_unmount fresh_window unmounted_waves) = [WavesResize 1]"
    "frame_requests (sw_mount_unmount fresh_window unmounted_waves) = []"
    by (simp_all add: sw_mount_unmount_def sw_effect_def draw_def sw_cleanup_def Let_def
        requestAnimationFrame_def cancelAnimationFrame_def addEventListener_def
        unmounted_waves_def fresh_window_def)
  have c: "pf_canvas unmounted_field = Some hero_canvas" by (simp add: unmounted_field_def)
  have "closure unmounted_field = 0" by (simp add: unmounted_field_def)
  then have pf: "resize_listeners (pf_mount_unmount half fresh_window unmounted_field)
        = resize_listeners fresh_window"
    "frame_requests (pf_mount_unmount half fresh_window unmounted_field)
        = frame_requests fresh_window"
    by (simp_all add: pf_teardown_restores [OF c] fresh_window_def)
  show ?thesis using sw pf by (simp add: fresh_window_def)
qed



section \<open>Submission of the lead form\<close>

text \<open>
  C3, as the code has it. The fields are cleared exactly when the request resolves
  with a response, whatever its status; when the request throws, the \<open>catch\<close> block
  runs without the line that clears them and the fields keep what the user typed.
\<close>

theorem fields_cleared_iff_fetch_resolves:
  "state (fst (onSubmit webhook ts fetch f)) =
     (case fetch (lead_request webhook ts (state f)) of
        Response status \<Rightarrow> empty_form
      | NetworkError \<Rightarrow> state f)"
  by (simp add: onSubmit_def try_block_def Let_def split: fetch_result.split)

text \<open>
  C3, as the specification states it, fails for a thrown network error: the filled form
  submitted while the network is down still holds every field.
\<close>

theorem network_error_keeps_fields:
  "offline (lead_request ''https://hook'' ''2026-01-01T00:00:00.000Z'' (state filled_form))
     = NetworkError
   \<and> state (fst (onSubmit ''https://hook'' ''2026-01-01T00:00:00.000Z'' offline filled_form))
       = state filled_form
   \<and> name (state (fst (onSubmit ''https://hook'' ''2026-01-01T00:00:00.000Z'' offline filled_form)))
       = ''Ada''
   \<and> state (fst (onSubmit ''https://hook'' ''2026-01-01T00:00:00.000Z'' offline filled_form))
       \<noteq> empty_form"
  by (simp add: onSubmit_def try_block_def Let_def offline_def filled_form_def empty_form_def)

text \<open>
  C4. The outcome shown after a submission depends on the result of the request only
  through the response status: a status from 200 to 299 shows the thanks message, any
  other status and a thrown network failure show the failure message with the contact
  address. Exactly one request is sent (no retry), and the handler ends normally with
  \<open>loading\<close> reset in every case, the rejection being caught.
\<close>

theorem submission_outcome_by_status:
  "banners (fst (onSubmit webhook ts fetch f)) =
     (case fetch (lead_request webhook ts (state f)) of
        Response status \<Rightarrow>
          if 200 \<le> status \<and> status \<le> 299 then [Thanks]
          else [SomethingWentWrong ''hello@oceanside.ai'']
      | NetworkError \<Rightarrow> [SomethingWentWrong ''hello@oceanside.ai''])
   \<and> snd (onSubmit webhook ts fetch f) = [lead_request webhook ts (state f)]
   \<and> loading (fst (onSubmit webhook ts fetch f)) = False"
  by (simp add: onSubmit_def try_block_def banners_def response_ok_def Let_def
      split: fetch_result.split)

text \<open>The theorem for a server answering 200, one answering 500, and a network that is down.\<close>

theorem submission_outcome_by_status_witness:
  "banners (fst (onSubmit ''https://hook'' ''now'' (answers 200) filled_form)) = [Thanks]
   \<and> banners (fst (onSubmit ''https://hook'' ''now'' (answers 500) filled_form))
       = [SomethingWentWrong ''hello@oceanside.ai'']
   \<and> banners (fst (onSubmit ''https://hook'' ''now'' offline filled_form))
       = [SomethingWentWrong ''hello@oceanside.ai'']
   \<and> length (snd (onSubmit ''https://hook'' ''now'' offline filled_form)) = 1"
  using submission_outcome_by_status [of "''https://hook''" "''now''" "answers 200" filled_form]
    submission_outcome_by_status [of "''https://hook''" "''now''" "answers 500" filled_form]
    submission_outcome_by_status [of "''https://hook''" "''now''" offline filled_form]
  by (simp add: answers_def offline_def)

section \<open>Persistence of the theme\<close>

lemma initial_theme_nonempty: "initial_theme s \<noteq> []"
  by (simp add: initial_theme_def split: option.split)

lemma stored_useTheme: "stored (useTheme s cls)"
  by (simp add: stored_def useTheme_def theme_effect_def Let_def initial_theme_nonempty)

lemma toggle_changes: "theme (toggle p) \<noteq> theme p"
  by (simp add: toggle_def setTheme_def theme_effect_def Let_def)

lemma stored_toggle: "stored (toggle p)"
  by (simp add: stored_def toggle_def setTheme_def theme_effect_def Let_def)

lemma stored_act: "stored (act a p)"
  by (cases a) (simp_all add: stored_toggle reload_def stored_useTheme)

lemma stored_visit: "stored (visit s cls acts)"
proof (induction acts rule: rev_induct)
  case Nil
  show ?case by (simp add: visit_def stored_useTheme)
next
  case (snoc a acts)
  show ?case using stored_act [of a "visit s cls acts"] by (simp add: visit_def)
qed

lemma reload_reads_stored: "stored p \<Longrightarrow> theme (reload cls p) = theme p"
  by (simp add: stored_def reload_def useTheme_def theme_effect_def Let_def initial_theme_def)

lemma stored_setTheme: "stored p \<Longrightarrow> v \<noteq> [] \<Longrightarrow> stored (setTheme v p)"
  by (simp add: stored_def setTheme_def theme_effect_def Let_def)

lemma theme_setTheme: "v \<noteq> [] \<Longrightarrow> theme (setTheme v p) = v"
  by (simp add: setTheme_def theme_effect_def Let_def)

text \<open>
  C8. At any moment of a visit (startup on any storage, then any toggles and reloads):
  setting the theme to \<open>"light"\<close> and reloading reads back \<open>"light"\<close>; a startup with no
  stored value has the theme \<open>"dark"\<close>; and every toggle changes the theme and leaves
  the new value in the storage.
\<close>

theorem theme_round_trip:
  "theme (reload cls' (setTheme ''light'' (visit s cls acts))) = ''light''
   \<and> (s ''theme'' = None \<longrightarrow> theme (useTheme s cls) = ''dark'')
   \<and> localStorage (toggle (visit s cls acts)) ''theme'' = Some (theme (toggle (visit s cls acts)))
   \<and> theme (toggle (visit s cls acts)) \<noteq> theme (visit s cls acts)"
proof -
  have "stored (setTheme ''light'' (visit s cls acts))"
    by (rule stored_setTheme [OF stored_visit]) simp
  then have 1: "theme (reload cls' (setTheme ''light'' (visit s cls acts))) = ''light''"
    by (simp add: reload_reads_stored theme_setTheme)
  have 2: "s ''theme'' = None \<longrightarrow> theme (useTheme s cls) = ''dark''"
    by (simp add: useTheme_def theme_effect_def initial_theme_def Let_def)
  have 3: "localStorage (toggle (visit s cls acts)) ''theme''
      = Some (theme (toggle (visit s cls acts)))"
    using stored_toggle [of "visit s cls acts"] by (simp add: stored_def)
  from 1 2 3 toggle_changes show ?thesis by blast
qed

text \<open>
  The theorem for a first visit (empty storage) with a toggle, a reload and another
  toggle.
\<close>

theorem theme_round_trip_witness:
  "empty_storage ''theme'' = None
   \<and> theme (useTheme empty_storage False) = ''dark''
   \<and> theme (reload False (setTheme ''light'' (visit empty_storage False [Toggle, Reload False, Toggle])))
       = ''light''
   \<and> localStorage (toggle (visit empty_storage False [Toggle, Reload False, Toggle])) ''theme''
       = Some (theme (toggle (visit empty_storage False [Toggle, Reload False, Toggle])))"
proof -
  have e: "empty_storage ''theme'' = None" by (simp add: empty_storage_def)
  show ?thesis
    using e theme_round_trip [of False empty_storage False "[Toggle, Reload False, Toggle]"]
    by blast
qed

end
